theory Spec2Isabelle
  imports Main "HOL-Library.Char_ord" "HOL-Library.List_Lexorder"
begin

section \<open>Byte strings, text and the values of the libraries\<close>

text \<open>
  The repository builds its protocol on the \<^verbatim>\<open>cryptography\<close> package and on Python's
  \<^verbatim>\<open>base64\<close>, \<^verbatim>\<open>hashlib\<close> and \<^verbatim>\<open>json\<close> modules. Their outputs are modelled symbolically,
  in the style of perfect cryptography: a byte string (or a text) is a list of symbols, a
  symbol being either an ordinary character or the opaque output of one library operation,
  which records the inputs it was computed from. Concatenation, \<^verbatim>\<open>startswith\<close> and slicing
  are the list operations. Two outputs are equal only if they come from the same
  operation on the same inputs; the random padding of OAEP and the nonce of ECDSA are not
  represented. A key pair is identified by the number of the generator run that made it.
\<close>

datatype sym =
    Chr char
  | B64 "sym list"
  | HexSha256 "sym list"
  | HexSha3Tail nat
  | PemRsaPrivate nat
  | PemRsaPublic nat
  | PemEcPrivate nat
  | PemEcPublic nat
  | Oaep nat "sym list"
  | GcmCiphertext "sym list" "sym list" "sym list"
  | GcmTag "sym list" "sym list" "sym list"
  | HmacSha256 "sym list" "sym list"
  | EcdsaDer nat "sym list"

type_synonym bytes = "sym list"
type_synonym str = "sym list"

definition S :: "string \<Rightarrow> sym list" where
  "S cs = map Chr cs"

definition startswith :: "sym list \<Rightarrow> sym list \<Rightarrow> bool" where
  "startswith xs p = (take (length p) xs = p)"

text \<open>Exceptions are values. \<open>ValueError\<close> carries the message the code (or the library)
  raises it with; \<open>LedgerError\<close> is whatever the ledger collaborator raises.\<close>

datatype error =
    ValueError string
  | KeyError string
  | TypeError
  | AttributeError
  | Base64Error
  | InvalidTag
  | JSONDecodeError
  | LedgerError string

definition bindE :: "error + 'a \<Rightarrow> ('a \<Rightarrow> error + 'b) \<Rightarrow> error + 'b" where
  "bindE m f = (case m of Inl e \<Rightarrow> Inl e | Inr x \<Rightarrow> f x)"

subsection \<open>JSON values\<close>

datatype json =
    JNull
  | JBool bool
  | JInt int
  | JStr str
  | JList "json list"
  | JObj "(string \<times> json) list"

type_synonym dict = "(string \<times> json) list"

definition item :: "dict \<Rightarrow> string \<Rightarrow> error + json" where
  "item d k = (case map_of d k of None \<Rightarrow> Inl (KeyError k) | Some v \<Rightarrow> Inr v)"

definition dict_set :: "dict \<Rightarrow> string \<Rightarrow> json \<Rightarrow> dict" where
  "dict_set d k v = (if k \<in> fst ` set d then map (\<lambda>kv. if fst kv = k then (k, v) else kv) d
                     else d @ [(k, v)])"

definition dict_pop :: "dict \<Rightarrow> string \<Rightarrow> error + (json \<times> dict)" where
  "dict_pop d k = (case map_of d k of None \<Rightarrow> Inl (KeyError k)
                   | Some v \<Rightarrow> Inr (v, filter (\<lambda>kv. fst kv \<noteq> k) d))"

text \<open>Python's truth value of a JSON value (\<^verbatim>\<open>not x\<close>, \<^verbatim>\<open>if x\<close>).\<close>

definition truthy :: "json \<Rightarrow> bool" where
  "truthy v = (case v of JNull \<Rightarrow> False | JBool b \<Rightarrow> b | JInt i \<Rightarrow> i \<noteq> 0
               | JStr s \<Rightarrow> s \<noteq> [] | JList l \<Rightarrow> l \<noteq> [] | JObj d \<Rightarrow> d \<noteq> [])"

subsection \<open>\<^verbatim>\<open>json.dumps\<close>\<close>

text \<open>The default encoder: separators \<^verbatim>\<open>", "\<close> and \<^verbatim>\<open>": "\<close>, \<^verbatim>\<open>ensure_ascii\<close>, and the
  keys of every object sorted by code point when \<^verbatim>\<open>sort_keys\<close> is set. The JSON values are
  null, booleans, integers, texts, lists and objects with text keys; floating-point
  numbers are left out. The opaque library values that the agent puts into a text (base64
  and hexadecimal digits) consist of characters that need no escape.\<close>

definition hexdigit :: "nat \<Rightarrow> char" where
  "hexdigit n = ''0123456789abcdef'' ! n"

definition escape_char :: "char \<Rightarrow> string" where
  "escape_char c =
     (if c = CHR 0x22 then [CHR 0x5C, CHR 0x22]
      else if c = CHR 0x5C then [CHR 0x5C, CHR 0x5C]
      else if c = CHR 0x0A then [CHR 0x5C, CHR ''n'']
      else if c = CHR 0x0D then [CHR 0x5C, CHR ''r'']
      else if c = CHR 0x09 then [CHR 0x5C, CHR ''t'']
      else if c = CHR 0x08 then [CHR 0x5C, CHR ''b'']
      else if c = CHR 0x0C then [CHR 0x5C, CHR ''f'']
      else if 0x20 \<le> (of_char c :: nat) \<and> (of_char c :: nat) \<le> 0x7E then [c]
      else [CHR 0x5C, CHR ''u'', CHR ''0'', CHR ''0'',
            hexdigit ((of_char c :: nat) div 16), hexdigit ((of_char c :: nat) mod 16)])"

fun escape_sym :: "sym \<Rightarrow> sym list" where
  "escape_sym (Chr c) = map Chr (escape_char c)"
| "escape_sym x = [x]"

definition encode_basestring_ascii :: "str \<Rightarrow> str" where
  "encode_basestring_ascii s = Chr (CHR 0x22) # concat (map escape_sym s) @ [Chr (CHR 0x22)]"

function show_nat :: "nat \<Rightarrow> string" where
  "show_nat n = (if n < 10 then [''0123456789'' ! n]
                 else show_nat (n div 10) @ [''0123456789'' ! (n mod 10)])"
  by pat_completeness auto
termination
  by (relation "measure id") auto

declare show_nat.simps [simp del]

definition show_int :: "int \<Rightarrow> string" where
  "show_int i = (if i < 0 then CHR ''-'' # show_nat (nat (- i)) else show_nat (nat i))"

fun join :: "sym list \<Rightarrow> sym list list \<Rightarrow> sym list" where
  "join sep [] = []"
| "join sep [x] = x"
| "join sep (x # y # ys) = x @ sep @ join sep (y # ys)"

function json_dumps :: "bool \<Rightarrow> json \<Rightarrow> str" where
  "json_dumps sort_keys JNull = S ''null''"
| "json_dumps sort_keys (JBool b) = (if b then S ''true'' else S ''false'')"
| "json_dumps sort_keys (JInt i) = S (show_int i)"
| "json_dumps sort_keys (JStr s) = encode_basestring_ascii s"
| "json_dumps sort_keys (JList vs) =
     S ''['' @ join (S '', '') (map (json_dumps sort_keys) vs) @ S '']''"
| "json_dumps sort_keys (JObj kvs) =
     S ''{'' @ join (S '', '')
        (map (\<lambda>kv. encode_basestring_ascii (S (fst kv)) @ S '': '' @ json_dumps sort_keys (snd kv))
           (if sort_keys then sort_key fst kvs else kvs)) @ S ''}''"
  by pat_completeness auto
termination
proof (relation "measure (\<lambda>p. size (snd p))", goal_cases)
  case 1
  show ?case by simp
next
  case (2 sort_keys vs x)
  then show ?case by (induction vs) auto
next
  case (3 sort_keys kvs x)
  then have "x \<in> set kvs" by (simp split: if_splits)
  then show ?case by (induction kvs) auto
qed

text \<open>\<^verbatim>\<open>len\<close> of a text: one for a character, and for an opaque library value the number
  of characters it stands for, given by \<open>width\<close>.\<close>

definition py_len :: "(sym \<Rightarrow> nat) \<Rightarrow> sym list \<Rightarrow> nat" where
  "py_len width xs = sum_list (map (\<lambda>x. case x of Chr _ \<Rightarrow> 1 | _ \<Rightarrow> width x) xs)"

subsection \<open>base64, hashlib and secrets\<close>

text \<open>\<^verbatim>\<open>b64encode(xs).decode()\<close> is one opaque symbol, and \<^verbatim>\<open>b64decode\<close> returns the bytes
  of such a symbol; a text that no \<^verbatim>\<open>b64encode\<close> made counts as undecodable, and a value
  that is no text is a \<^verbatim>\<open>TypeError\<close>. \<^verbatim>\<open>secrets.token_bytes(n)\<close> takes the next \<open>n\<close> bytes
  of a random source, which is passed on.\<close>

definition b64encode :: "bytes \<Rightarrow> str" where
  "b64encode xs = [B64 xs]"

definition b64decode :: "json \<Rightarrow> error + bytes" where
  "b64decode v = (case v of JStr [B64 xs] \<Rightarrow> Inr xs | JStr _ \<Rightarrow> Inl Base64Error | _ \<Rightarrow> Inl TypeError)"

definition sha256_hexdigest :: "bytes \<Rightarrow> str" where
  "sha256_hexdigest xs = [HexSha256 xs]"

type_synonym entropy = "nat \<Rightarrow> char"

definition token_bytes :: "nat \<Rightarrow> entropy \<Rightarrow> bytes \<times> entropy" where
  "token_bytes n src = (map (\<lambda>i. Chr (src i)) [0..<n], \<lambda>i. src (i + n))"

subsection \<open>The cryptography package\<close>

datatype public_key = RSAPublicKey nat | EllipticCurvePublicKey nat
datatype private_key = RSAPrivateKey nat | EllipticCurvePrivateKey nat

text \<open>A PEM serialisation is one opaque symbol, and loading succeeds exactly on such a
  symbol of the right kind.\<close>

definition load_pem_public_key :: "bytes \<Rightarrow> error + public_key" where
  "load_pem_public_key pem = (case pem of
       [PemRsaPublic n] \<Rightarrow> Inr (RSAPublicKey n)
     | [PemEcPublic n] \<Rightarrow> Inr (EllipticCurvePublicKey n)
     | _ \<Rightarrow> Inl (ValueError ''Could not deserialize key data''))"

definition load_pem_private_key :: "bytes \<Rightarrow> error + private_key" where
  "load_pem_private_key pem = (case pem of
       [PemRsaPrivate n] \<Rightarrow> Inr (RSAPrivateKey n)
     | [PemEcPrivate n] \<Rightarrow> Inr (EllipticCurvePrivateKey n)
     | _ \<Rightarrow> Inl (ValueError ''Could not deserialize key data''))"

text \<open>\<^verbatim>\<open>public_key.encrypt(m, OAEP)\<close> and \<^verbatim>\<open>private_key.decrypt(c, OAEP)\<close>: only RSA keys have
  these methods; unwrapping succeeds exactly on a wrapping made for the same key pair.\<close>

definition oaep_encrypt :: "public_key \<Rightarrow> bytes \<Rightarrow> error + bytes" where
  "oaep_encrypt k m = (case k of RSAPublicKey n \<Rightarrow> Inr [Oaep n m]
                       | EllipticCurvePublicKey _ \<Rightarrow> Inl AttributeError)"

definition oaep_decrypt :: "private_key \<Rightarrow> bytes \<Rightarrow> error + bytes" where
  "oaep_decrypt k c = (case k of
       RSAPrivateKey n \<Rightarrow> (case c of
           [Oaep n' m] \<Rightarrow> if n' = n then Inr m else Inl (ValueError ''Decryption failed'')
         | _ \<Rightarrow> Inl (ValueError ''Decryption failed''))
     | EllipticCurvePrivateKey _ \<Rightarrow> Inl AttributeError)"

text \<open>\<^verbatim>\<open>Cipher(algorithms.AES(key), modes.GCM(iv))\<close>: the key has 128, 192 or 256 bits and
  the nonce 8 to 128 bytes, or the constructors raise \<^verbatim>\<open>ValueError\<close>. Decryption succeeds
  exactly on the ciphertext and tag made by an encryption under the same key and nonce,
  and raises \<^verbatim>\<open>InvalidTag\<close> otherwise (a tag is one opaque symbol: the check of its
  length by \<^verbatim>\<open>modes.GCM(iv, tag)\<close> is not represented).\<close>

definition aes_gcm_cipher :: "bytes \<Rightarrow> bytes \<Rightarrow> error + unit" where
  "aes_gcm_cipher key iv =
     (if length key \<notin> {16, 24, 32} then Inl (ValueError ''Invalid key size for AES'')
      else if length iv < 8 \<or> 128 < length iv then Inl (ValueError ''initialization_vector must be between 8 and 128 bytes'')
      else Inr ())"

definition aes_gcm_encrypt :: "bytes \<Rightarrow> bytes \<Rightarrow> bytes \<Rightarrow> error + (bytes \<times> bytes)" where
  "aes_gcm_encrypt key iv plaintext =
     bindE (aes_gcm_cipher key iv) (\<lambda>_.
       Inr ([GcmCiphertext key iv plaintext], [GcmTag key iv plaintext]))"

definition aes_gcm_decrypt :: "bytes \<Rightarrow> bytes \<Rightarrow> bytes \<Rightarrow> bytes \<Rightarrow> error + bytes" where
  "aes_gcm_decrypt key iv tag ciphertext =
     bindE (aes_gcm_cipher key iv) (\<lambda>_.
       case ciphertext of
         [GcmCiphertext key' iv' plaintext] \<Rightarrow>
           if key' = key \<and> iv' = iv \<and> tag = [GcmTag key iv plaintext] then Inr plaintext
           else Inl InvalidTag
       | _ \<Rightarrow> Inl InvalidTag)"

definition hmac_sha256 :: "bytes \<Rightarrow> bytes \<Rightarrow> bytes" where
  "hmac_sha256 key msg = [HmacSha256 key msg]"

text \<open>\<^verbatim>\<open>private_key.sign(message, ec.ECDSA(hashes.SHA256()))\<close> and
  \<^verbatim>\<open>public_key.verify(signature, message, ec.ECDSA(hashes.SHA256()))\<close>: the call has the
  signature of the elliptic-curve methods; on an RSA key, whose methods take a padding and
  an algorithm, it is a \<^verbatim>\<open>TypeError\<close>. \<open>ecdsa_verify\<close> returns whether the library accepts
  the signature (it raises \<^verbatim>\<open>InvalidSignature\<close> otherwise).\<close>

definition ecdsa_sign :: "private_key \<Rightarrow> bytes \<Rightarrow> error + bytes" where
  "ecdsa_sign k message = (case k of EllipticCurvePrivateKey n \<Rightarrow> Inr [EcdsaDer n message]
                           | RSAPrivateKey _ \<Rightarrow> Inl TypeError)"

definition ecdsa_verify :: "public_key \<Rightarrow> bytes \<Rightarrow> bytes \<Rightarrow> error + bool" where
  "ecdsa_verify k signature_bytes message = (case k of
       EllipticCurvePublicKey n \<Rightarrow> Inr (signature_bytes = [EcdsaDer n message])
     | RSAPublicKey _ \<Rightarrow> Inl TypeError)"

section \<open>\<^verbatim>\<open>utils/crypto_utils.py\<close>: AICUBECryptoManager\<close>

definition NEURAL_SIGNATURE_PATTERN :: bytes where
  "NEURAL_SIGNATURE_PATTERN = S ''AICUBE_NEURAL_0x4A1C7B3E9F2D8A56''"

definition QUANTUM_SHIELD_HEADER :: bytes where
  "QUANTUM_SHIELD_HEADER = S ''AICUBE_QUANTUM_SHIELD_v2025''"

definition aes_key_size :: nat where "aes_key_size = 32"
definition hmac_key_size :: nat where "hmac_key_size = 32"

definition generate_rsa_keypair :: "nat \<Rightarrow> bytes \<times> bytes" where
  "generate_rsa_keypair n =
     (let private_pem = [PemRsaPrivate n];
          public_pem = [PemRsaPublic n];
          private_pem = QUANTUM_SHIELD_HEADER @ private_pem
      in (private_pem, public_pem))"

definition generate_ecdsa_keypair :: "nat \<Rightarrow> bytes \<times> bytes" where
  "generate_ecdsa_keypair n = ([PemEcPrivate n], [PemEcPublic n])"

definition encrypt_message :: "entropy \<Rightarrow> bytes \<Rightarrow> bytes \<Rightarrow> error + dict" where
  "encrypt_message src message public_key_pem =
     (let (aes_key, src1) = token_bytes aes_key_size src;
          (iv, src2) = token_bytes 12 src1;
          enhanced_message = NEURAL_SIGNATURE_PATTERN @ message
      in bindE (aes_gcm_encrypt aes_key iv enhanced_message) (\<lambda>(ciphertext, tag).
         bindE (load_pem_public_key public_key_pem) (\<lambda>public_key.
         bindE (oaep_encrypt public_key aes_key) (\<lambda>encrypted_aes_key.
         let (hmac_key, src3) = token_bytes hmac_key_size src2;
             message_hmac = hmac_sha256 hmac_key ciphertext
         in bindE (oaep_encrypt public_key hmac_key) (\<lambda>encrypted_hmac_key.
            Inr [(''ciphertext'', JStr (b64encode ciphertext)),
                 (''iv'', JStr (b64encode iv)),
                 (''tag'', JStr (b64encode tag)),
                 (''encrypted_aes_key'', JStr (b64encode encrypted_aes_key)),
                 (''hmac'', JStr (b64encode message_hmac)),
                 (''encrypted_hmac_key'', JStr (b64encode encrypted_hmac_key)),
                 (''aicube_signature'', JStr (S ''neural_enhanced''))])))))"

text \<open>\<open>decrypt_message_traced\<close> is \<^verbatim>\<open>decrypt_message\<close> together with the list of the
  cryptographic operations it asks of the library, in the order of the calls.\<close>

datatype lib_call = OaepDecrypt | HmacVerify | AesGcmDecrypt

type_synonym 'a traced = "lib_call list \<times> (error + 'a)"

definition quiet :: "error + 'a \<Rightarrow> 'a traced" where
  "quiet r = ([], r)"

definition calling :: "lib_call \<Rightarrow> error + 'a \<Rightarrow> 'a traced" where
  "calling c r = ([c], r)"

definition and_then :: "'a traced \<Rightarrow> ('a \<Rightarrow> 'b traced) \<Rightarrow> 'b traced" where
  "and_then m f = (case m of
       (t, Inl e) \<Rightarrow> (t, Inl e)
     | (t, Inr x) \<Rightarrow> (case f x of (t', r) \<Rightarrow> (t @ t', r)))"

definition strip_quantum_shield :: "bytes \<Rightarrow> bytes" where
  "strip_quantum_shield private_key_pem =
     (if startswith private_key_pem QUANTUM_SHIELD_HEADER
      then drop (length QUANTUM_SHIELD_HEADER) private_key_pem else private_key_pem)"

definition decrypt_message_traced :: "dict \<Rightarrow> bytes \<Rightarrow> bytes traced" where
  "decrypt_message_traced encrypted_data private_key_pem =
     and_then (quiet (load_pem_private_key (strip_quantum_shield private_key_pem))) (\<lambda>private_key.
     and_then (quiet (bindE (item encrypted_data ''encrypted_aes_key'') b64decode)) (\<lambda>encrypted_aes_key.
     and_then (calling OaepDecrypt (oaep_decrypt private_key encrypted_aes_key)) (\<lambda>aes_key.
     and_then (quiet (bindE (item encrypted_data ''encrypted_hmac_key'') b64decode)) (\<lambda>encrypted_hmac_key.
     and_then (calling OaepDecrypt (oaep_decrypt private_key encrypted_hmac_key)) (\<lambda>hmac_key.
     and_then (quiet (bindE (item encrypted_data ''ciphertext'') b64decode)) (\<lambda>ciphertext.
     and_then (quiet (bindE (item encrypted_data ''hmac'') b64decode)) (\<lambda>expected_hmac.
     and_then (calling HmacVerify
                 (if hmac_sha256 hmac_key ciphertext = expected_hmac then Inr ()
                  else Inl (ValueError ''Message integrity verification failed''))) (\<lambda>_.
     and_then (quiet (bindE (item encrypted_data ''iv'') b64decode)) (\<lambda>iv.
     and_then (quiet (bindE (item encrypted_data ''tag'') b64decode)) (\<lambda>tag.
     and_then (calling AesGcmDecrypt (aes_gcm_decrypt aes_key iv tag ciphertext)) (\<lambda>enhanced_message.
     if \<not> startswith enhanced_message NEURAL_SIGNATURE_PATTERN
     then quiet (Inl (ValueError ''AICUBE Neural Signature verification failed''))
     else let original_message = drop (length NEURAL_SIGNATURE_PATTERN) enhanced_message
          in quiet (Inr original_message))))))))))))"

definition decrypt_message :: "dict \<Rightarrow> bytes \<Rightarrow> error + bytes" where
  "decrypt_message encrypted_data private_key_pem =
     snd (decrypt_message_traced encrypted_data private_key_pem)"

definition sign_message :: "bytes \<Rightarrow> bytes \<Rightarrow> error + str" where
  "sign_message message private_key_pem =
     bindE (load_pem_private_key (strip_quantum_shield private_key_pem)) (\<lambda>private_key.
     bindE (ecdsa_sign private_key message) (\<lambda>signature.
     Inr (b64encode signature)))"

definition verify_signature :: "bytes \<Rightarrow> json \<Rightarrow> bytes \<Rightarrow> bool" where
  "verify_signature message signature public_key_pem =
     (case bindE (load_pem_public_key public_key_pem) (\<lambda>public_key.
           bindE (b64decode signature) (\<lambda>signature_bytes.
           ecdsa_verify public_key signature_bytes message)) of
        Inl _ \<Rightarrow> False
      | Inr accepted \<Rightarrow> accepted)"

text \<open>\<^verbatim>\<open>public_numbers()\<close> of an elliptic-curve key has the coordinates \<^verbatim>\<open>x\<close> and \<^verbatim>\<open>y\<close>;
  that of an RSA key has \<^verbatim>\<open>e\<close> and \<^verbatim>\<open>n\<close> only, so reading \<^verbatim>\<open>numbers.x\<close> is an
  \<^verbatim>\<open>AttributeError\<close>.\<close>

definition generate_address_from_public_key :: "bytes \<Rightarrow> error + str" where
  "generate_address_from_public_key public_key_pem =
     bindE (load_pem_public_key public_key_pem) (\<lambda>public_key.
       case public_key of
         EllipticCurvePublicKey n \<Rightarrow> Inr (S ''0x'' @ [HexSha3Tail n])
       | RSAPublicKey _ \<Rightarrow> Inl AttributeError)"

definition hash_message :: "bytes \<Rightarrow> str" where
  "hash_message message = sha256_hexdigest message"

section \<open>\<^verbatim>\<open>agent/crypto_handler.py\<close>: CryptoHandler\<close>

text \<open>The four key attributes (\<^verbatim>\<open>_private_key_pem\<close>, ...; \<open>u_\<close> stands for the leading
  underscore). They are filled by the constructor from a key store or from a given key,
  or by \<open>generate_keys\<close>.\<close>

record CryptoHandler =
  u_private_key_pem :: "bytes option"
  u_public_key_pem :: "bytes option"
  u_ecdsa_private_key :: "bytes option"
  u_ecdsa_public_key :: "bytes option"

text \<open>What the agent reads from its environment: the clock, the random sources, the
  outcome of writing the key files, \<^verbatim>\<open>json.loads\<close>, \<^verbatim>\<open>datetime.fromisoformat\<close> and the
  number of characters of each opaque library value.\<close>

record runtime =
  width :: "sym \<Rightarrow> nat"
  json_loads :: "bytes \<Rightarrow> error + json"
  fromisoformat :: "json \<Rightarrow> error + str"
  utcnow :: "nat \<Rightarrow> str"
  time_us :: nat
  entropy_src :: entropy
  rsa_seed :: nat
  ecdsa_seed :: nat
  save_keys :: "error option"

definition not_bytes :: "bytes option \<Rightarrow> bool" where
  "not_bytes b = (b = None \<or> b = Some [])"

definition has_keys :: "CryptoHandler \<Rightarrow> bool" where
  "has_keys h = (u_private_key_pem h \<noteq> None \<and> u_public_key_pem h \<noteq> None
                 \<and> u_ecdsa_private_key h \<noteq> None \<and> u_ecdsa_public_key h \<noteq> None)"

definition generate_keys :: "runtime \<Rightarrow> CryptoHandler \<Rightarrow> CryptoHandler \<times> (error + unit)" where
  "generate_keys rt h =
     (let (rsa_private, rsa_public) = generate_rsa_keypair (rsa_seed rt);
          (ec_private, ec_public) = generate_ecdsa_keypair (ecdsa_seed rt);
          h' = h\<lparr>u_private_key_pem := Some rsa_private, u_public_key_pem := Some rsa_public,
                 u_ecdsa_private_key := Some ec_private, u_ecdsa_public_key := Some ec_public\<rparr>
      in (h', case save_keys rt of Some e \<Rightarrow> Inl e | None \<Rightarrow> Inr ()))"

definition get_public_key :: "CryptoHandler \<Rightarrow> error + bytes" where
  "get_public_key h = (if not_bytes (u_public_key_pem h) then Inl (ValueError ''Keys not initialized'')
                       else Inr (the (u_public_key_pem h)))"

definition get_private_key :: "CryptoHandler \<Rightarrow> error + bytes" where
  "get_private_key h = (if not_bytes (u_private_key_pem h) then Inl (ValueError ''Keys not initialized'')
                        else Inr (the (u_private_key_pem h)))"

definition get_public_key_hex :: "CryptoHandler \<Rightarrow> error + str" where
  "get_public_key_hex h = bindE (get_public_key h) (\<lambda>public_key. Inr (b64encode public_key))"

definition CryptoHandler_sign_message :: "CryptoHandler \<Rightarrow> bytes \<Rightarrow> error + str" where
  "CryptoHandler_sign_message h message =
     (if not_bytes (u_ecdsa_private_key h) then Inl (ValueError ''Keys not initialized'')
      else let enhanced_message = NEURAL_SIGNATURE_PATTERN @ message
           in sign_message enhanced_message (the (u_ecdsa_private_key h)))"

definition CryptoHandler_verify_signature :: "bytes \<Rightarrow> json \<Rightarrow> bytes \<Rightarrow> bool" where
  "CryptoHandler_verify_signature message signature public_key =
     (let enhanced_message = NEURAL_SIGNATURE_PATTERN @ message
      in verify_signature enhanced_message signature public_key)"

section \<open>\<^verbatim>\<open>agent/base_agent.py\<close>: SecureAgent\<close>

record Message =
  msg_id :: json
  msg_sender :: json
  msg_recipient :: json
  msg_payload :: json
  msg_timestamp :: str
  msg_signature :: json
  msg_encrypted :: bool
  msg_neural_signature :: json

record AgentIdentity =
  i_address :: str
  i_public_key :: bytes
  i_did_document :: str
  i_role :: str
  i_registration_time :: str
  i_is_active :: bool

record SecureAgent =
  name :: str
  role :: str
  crypto_handler :: CryptoHandler
  identity :: "AgentIdentity option"
  address :: "str option"
  u_neural_signature :: str
  u_quantum_shield_active :: bool

text \<open>The ledger collaborator (\<^verbatim>\<open>blockchain_client\<close>): what its methods answer. A call of
  its \<^verbatim>\<open>send_message\<close> is the record of the four keyword arguments.\<close>

record ledger_call =
  c_recipient :: str
  c_message_hash :: str
  c_ipfs_hash :: "str option"
  c_metadata :: dict

record ledger =
  register_agent :: "str \<Rightarrow> str \<Rightarrow> str \<Rightarrow> error + str"
  get_agent_info :: "json \<Rightarrow> error + dict option"
  client_send_message :: "ledger_call \<Rightarrow> error + str"

definition HEX8 :: "nat \<Rightarrow> string" where
  "HEX8 h = map (\<lambda>d. ''0123456789ABCDEF'' ! ((h div d) mod 16))
              [268435456, 16777216, 1048576, 65536, 4096, 256, 16, 1]"

text \<open>\<^verbatim>\<open>__init__\<close>; \<open>name_hash\<close> is \<^verbatim>\<open>hash(name)\<close>, which Python salts per process.\<close>

definition SecureAgent_init :: "str \<Rightarrow> CryptoHandler \<Rightarrow> str \<Rightarrow> nat \<Rightarrow> SecureAgent" where
  "SecureAgent_init nm handler rl name_hash =
     \<lparr>name = nm, role = rl, crypto_handler = handler, identity = None, address = None,
      u_neural_signature = S ''AICUBE_AGENT_'' @ nm @ S ''_NEURAL_0x'' @ S (HEX8 (name_hash mod 4294967296)),
      u_quantum_shield_active = True\<rparr>"

definition opt_str :: "str option \<Rightarrow> json" where
  "opt_str s = (case s of None \<Rightarrow> JNull | Some x \<Rightarrow> JStr x)"

definition dict_get :: "dict \<Rightarrow> string \<Rightarrow> json \<Rightarrow> json" where
  "dict_get d k dflt = (case map_of d k of None \<Rightarrow> dflt | Some v \<Rightarrow> v)"

definition register :: "runtime \<Rightarrow> ledger \<Rightarrow> SecureAgent \<Rightarrow> SecureAgent \<times> (error + str)" where
  "register rt L a =
     (let (h, generated) = (if \<not> has_keys (crypto_handler a) then generate_keys rt (crypto_handler a)
                            else (crypto_handler a, Inr ()));
          a1 = a\<lparr>crypto_handler := h\<rparr>
      in case bindE generated (\<lambda>_.
              bindE (get_public_key h) (\<lambda>public_key.
              bindE (generate_address_from_public_key public_key) (\<lambda>addr.
              Inr (public_key, addr)))) of
           Inl e \<Rightarrow> (a1, Inl e)
         | Inr (public_key, addr) \<Rightarrow>
             let a2 = a1\<lparr>address := Some addr\<rparr>
             in (case bindE (get_public_key_hex h) (\<lambda>public_key_hex.
                       let did_document = JObj
                             [(''id'', JStr (S ''did:aicube:'' @ addr)),
                              (''name'', JStr (name a)),
                              (''role'', JStr (role a)),
                              (''publicKey'', JStr public_key_hex),
                              (''created'', JStr (utcnow rt 0)),
                              (''neural_signature'', JStr (u_neural_signature a)),
                              (''quantum_shield'', JBool (u_quantum_shield_active a)),
                              (''aicube_version'', JStr (S ''2.0.0''))];
                           did_bytes = json_dumps True did_document
                       in bindE (CryptoHandler_sign_message h did_bytes) (\<lambda>signature.
                          bindE (register_agent L (hash_message public_key)
                                   (json_dumps False did_document) signature) (\<lambda>tx_hash.
                          Inr (tx_hash, json_dumps False did_document)))) of
                   Inl e \<Rightarrow> (a2, Inl e)
                 | Inr (tx_hash, did) \<Rightarrow>
                     (a2\<lparr>identity := Some \<lparr>i_address = addr, i_public_key = public_key,
                             i_did_document = did, i_role = role a,
                             i_registration_time = utcnow rt 1, i_is_active = True\<rparr>\<rparr>,
                      Inr tx_hash)))"

text \<open>\<^verbatim>\<open>send_message\<close> up to and including "Sign message": the message identifier, the signed
  \<^verbatim>\<open>message_data\<close> and the \<^verbatim>\<open>message_bytes\<close> that were signed.\<close>

definition sign_envelope ::
    "runtime \<Rightarrow> ledger \<Rightarrow> SecureAgent \<Rightarrow> str \<Rightarrow> json \<Rightarrow> bool \<Rightarrow> str \<Rightarrow> error + (str \<times> dict \<times> bytes)" where
  "sign_envelope rt L a recipient payload encrypt priority =
     bindE (get_agent_info L (JStr recipient)) (\<lambda>recipient_info.
     case recipient_info of
       None \<Rightarrow> Inl (ValueError ''Recipient not found or inactive'')
     | Some info \<Rightarrow>
         if info = [] \<or> \<not> truthy (dict_get info ''is_active'' JNull)
         then Inl (ValueError ''Recipient not found or inactive'')
         else
           let message_id = S ''msg_'' @ S (show_nat (time_us rt));
               message_data =
                 [(''id'', JStr message_id),
                  (''from'', opt_str (address a)),
                  (''to'', JStr recipient),
                  (''payload'', payload),
                  (''timestamp'', JStr (utcnow rt 0)),
                  (''priority'', JStr priority),
                  (''neural_signature'', JStr (u_neural_signature a)),
                  (''quantum_protected'', JBool (u_quantum_shield_active a))]
           in bindE (if encrypt then
                       bindE (item info ''public_key'') (\<lambda>recipient_public_key.
                       case recipient_public_key of
                         JStr pk \<Rightarrow>
                           bindE (encrypt_message (entropy_src rt) (json_dumps False payload) pk)
                             (\<lambda>encrypted_payload.
                               Inr (dict_set (dict_set message_data ''encrypted_payload'' (JObj encrypted_payload))
                                      ''encryption'' (JStr (S ''aes-256-gcm''))))
                       | _ \<Rightarrow> Inl AttributeError)
                     else Inr message_data) (\<lambda>message_data.
              let message_bytes = json_dumps True (JObj message_data)
              in bindE (CryptoHandler_sign_message (crypto_handler a) message_bytes) (\<lambda>signature.
                 Inr (message_id, dict_set message_data ''signature'' (JStr signature), message_bytes))))"

text \<open>\<^verbatim>\<open>_store_off_chain\<close> serialises the data with sorted keys and returns the SHA-256 of
  it ("For now, return a mock hash"); it hands the data to no store. The model returns
  the objects written to off-chain storage, of which there are none, and the hash.\<close>

definition store_off_chain :: "dict \<Rightarrow> bytes list \<times> str" where
  "store_off_chain data =
     (let data_str = json_dumps True (JObj data)
      in ([], sha256_hexdigest data_str))"

text \<open>\<^verbatim>\<open>send_message\<close>: the call made to the ledger collaborator, if one is made, the
  objects written to off-chain storage, and the result (the message identifier, or the
  exception raised).\<close>

definition send_message ::
    "runtime \<Rightarrow> ledger \<Rightarrow> SecureAgent \<Rightarrow> str \<Rightarrow> json \<Rightarrow> bool \<Rightarrow> str
       \<Rightarrow> ledger_call option \<times> bytes list \<times> (error + str)" where
  "send_message rt L a recipient payload encrypt priority =
     (if identity a = None
      then (None, [], Inl (ValueError ''Agent must be registered before sending messages''))
      else case sign_envelope rt L a recipient payload encrypt priority of
        Inl e \<Rightarrow> (None, [], Inl e)
      | Inr (message_id, message_data, message_bytes) \<Rightarrow>
          let (blockchain_payload, ipfs_hash, written) =
                (if py_len (width rt) (json_dumps False (JObj message_data)) > 1024
                 then let (written, ipfs_hash) = store_off_chain message_data
                      in ([(''id'', JStr message_id),
                           (''from'', opt_str (address a)),
                           (''to'', JStr recipient),
                           (''ipfs_hash'', JStr ipfs_hash),
                           (''message_hash'', JStr (hash_message message_bytes)),
                           (''timestamp'', dict_get message_data ''timestamp'' JNull),
                           (''neural_signature'', JStr (u_neural_signature a))],
                          Some ipfs_hash, written)
                 else (message_data, None, []));
              call = \<lparr>c_recipient = recipient, c_message_hash = hash_message message_bytes,
                      c_ipfs_hash = ipfs_hash, c_metadata = blockchain_payload\<rparr>
          in (Some call, written, bindE (client_send_message L call) (\<lambda>tx_hash. Inr message_id)))"

text \<open>\<^verbatim>\<open>_verify_message_signature\<close> pops the signature from the dictionary it is given, which
  is the caller's \<^verbatim>\<open>raw_message\<close> itself: the dictionary after the call is returned too.\<close>

definition verify_message_signature :: "dict \<Rightarrow> json \<Rightarrow> bool \<times> dict" where
  "verify_message_signature message sender_public_key =
     (case dict_pop message ''signature'' of
        Inl _ \<Rightarrow> (False, message)
      | Inr (signature, message') \<Rightarrow>
          let message_bytes = json_dumps True (JObj message')
          in (case sender_public_key of
                JStr pk \<Rightarrow> (verify_signature message_bytes signature pk, message')
              | _ \<Rightarrow> (False, message')))"

datatype event = Yield Message | LogWarning string | LogError error

text \<open>The body of the loop of \<^verbatim>\<open>receive_messages\<close> for one \<^verbatim>\<open>raw_message\<close>: \<open>Inl\<close> is an
  exception raised inside the inner \<^verbatim>\<open>try\<close>, \<open>Inr\<close> the record yielded or the warning
  logged before \<^verbatim>\<open>continue\<close>.\<close>

definition receive_messages_body :: "runtime \<Rightarrow> ledger \<Rightarrow> SecureAgent \<Rightarrow> dict \<Rightarrow> error + event" where
  "receive_messages_body rt L a raw_message0 =
     bindE (item raw_message0 ''from'') (\<lambda>frm.
     bindE (get_agent_info L frm) (\<lambda>sender_info.
     case sender_info of
       None \<Rightarrow> Inr (LogWarning ''Unknown sender'')
     | Some info \<Rightarrow>
         if info = [] then Inr (LogWarning ''Unknown sender'')
         else
           bindE (item info ''public_key'') (\<lambda>sender_public_key.
           case verify_message_signature raw_message0 sender_public_key of (verified, raw_message) \<Rightarrow>
           if \<not> verified then Inr (LogWarning ''Invalid signature'')
           else
             bindE (if ''encrypted_payload'' \<in> fst ` set raw_message then
                      bindE (item raw_message ''encrypted_payload'') (\<lambda>encrypted_payload.
                      bindE (get_private_key (crypto_handler a)) (\<lambda>private_key_pem.
                      bindE (case encrypted_payload of
                               JObj encrypted_data \<Rightarrow> decrypt_message encrypted_data private_key_pem
                             | _ \<Rightarrow> bindE (load_pem_private_key (strip_quantum_shield private_key_pem))
                                      (\<lambda>_. Inl TypeError)) (\<lambda>decrypted_payload.
                      json_loads rt decrypted_payload)))
                    else item raw_message ''payload'') (\<lambda>payload.
             bindE (case dict_get raw_message ''neural_signature'' (JStr []) of
                      JStr s \<Rightarrow> Inr (startswith s (S ''AICUBE_AGENT_''))
                    | _ \<Rightarrow> Inl AttributeError) (\<lambda>authentic.
             if authentic then
               bindE (item raw_message ''id'') (\<lambda>mid.
               bindE (item raw_message ''from'') (\<lambda>sender.
               bindE (item raw_message ''to'') (\<lambda>rcpt.
               bindE (bindE (item raw_message ''timestamp'') (fromisoformat rt)) (\<lambda>timestamp.
               bindE (item raw_message ''signature'') (\<lambda>signature.
               Inr (Yield \<lparr>msg_id = mid, msg_sender = sender, msg_recipient = rcpt,
                           msg_payload = payload, msg_timestamp = timestamp,
                           msg_signature = signature,
                           msg_encrypted = (''encrypted_payload'' \<in> fst ` set raw_message),
                           msg_neural_signature = dict_get raw_message ''neural_signature'' JNull\<rparr>))))))
             else Inr (LogWarning ''Message without AICUBE neural signature''))))))"

text \<open>The loop over the messages the collaborator's \<^verbatim>\<open>listen_messages\<close> delivers: an
  exception of the body is logged and the loop goes on.\<close>

fun receive_loop :: "runtime \<Rightarrow> ledger \<Rightarrow> SecureAgent \<Rightarrow> dict list \<Rightarrow> event list" where
  "receive_loop rt L a [] = []"
| "receive_loop rt L a (raw_message # rest) =
     (case receive_messages_body rt L a raw_message of
        Inl e \<Rightarrow> LogError e # receive_loop rt L a rest
      | Inr ev \<Rightarrow> ev # receive_loop rt L a rest)"

text \<open>\<^verbatim>\<open>receive_messages\<close> on a run of the stream: the messages delivered, and the exception
  with which the collaborator's iterator fails after them, if it does. The result is the
  events in order and the exception that leaves \<^verbatim>\<open>receive_messages\<close>, if any.\<close>

definition receive_messages ::
    "runtime \<Rightarrow> ledger \<Rightarrow> SecureAgent \<Rightarrow> dict list \<times> error option \<Rightarrow> event list \<times> error option" where
  "receive_messages rt L a stream =
     (if identity a = None
      then ([], Some (ValueError ''Agent must be registered before receiving messages''))
      else (receive_loop rt L a (fst stream), snd stream))"

definition yielded :: "event list \<Rightarrow> Message list" where
  "yielded evs = concat (map (\<lambda>ev. case ev of Yield m \<Rightarrow> [m] | _ \<Rightarrow> []) evs)"

section \<open>Names of the specification and example data\<close>

text \<open>The specification's \<open>IntegrityError\<close> is the \<^verbatim>\<open>ValueError\<close> that \<^verbatim>\<open>decrypt_message\<close>
  raises when the keyed hash does not verify; its \<open>DecryptionError\<close> is an exception of
  the cryptography package while a key is unwrapped or the ciphertext is decrypted.\<close>

abbreviation IntegrityError :: error where
  "IntegrityError \<equiv> ValueError ''Message integrity verification failed''"

definition is_DecryptionError :: "error \<Rightarrow> bool" where
  "is_DecryptionError e =
     (e \<in> {ValueError ''Decryption failed'', ValueError ''Invalid key size for AES'', InvalidTag})"

text \<open>The block that \<open>encrypt_message\<close> makes for the public key of key pair \<open>n\<close>.\<close>

definition sealed :: "entropy \<Rightarrow> bytes \<Rightarrow> nat \<Rightarrow> dict" where
  "sealed src P n =
     (let aes_key = fst (token_bytes 32 src);
          src1 = snd (token_bytes 32 src);
          iv = fst (token_bytes 12 src1);
          src2 = snd (token_bytes 12 src1);
          hmac_key = fst (token_bytes 32 src2);
          ct = [GcmCiphertext aes_key iv (NEURAL_SIGNATURE_PATTERN @ P)]
      in [(''ciphertext'', JStr (b64encode ct)),
          (''iv'', JStr (b64encode iv)),
          (''tag'', JStr (b64encode [GcmTag aes_key iv (NEURAL_SIGNATURE_PATTERN @ P)])),
          (''encrypted_aes_key'', JStr (b64encode [Oaep n aes_key])),
          (''hmac'', JStr (b64encode (hmac_sha256 hmac_key ct))),
          (''encrypted_hmac_key'', JStr (b64encode [Oaep n hmac_key])),
          (''aicube_signature'', JStr (S ''neural_enhanced''))])"

definition example_entropy :: entropy where
  "example_entropy = (\<lambda>i. char_of i)"

text \<open>A block made for key pair 7 like those of \<open>encrypt_message\<close>, except that the text
  encrypted under AES-GCM is \<^verbatim>\<open>b"hello"\<close>, without the neural signature pattern.\<close>

definition unsigned_block :: dict where
  "unsigned_block =
     (let k = S (replicate 32 CHR ''k''); n = S (replicate 12 CHR ''n''); h = S (replicate 32 CHR ''h'')
      in [(''ciphertext'', JStr (b64encode [GcmCiphertext k n (S ''hello'')])),
          (''iv'', JStr (b64encode n)),
          (''tag'', JStr (b64encode [GcmTag k n (S ''hello'')])),
          (''encrypted_aes_key'', JStr (b64encode [Oaep 7 k])),
          (''hmac'', JStr (b64encode (hmac_sha256 h [GcmCiphertext k n (S ''hello'')]))),
          (''encrypted_hmac_key'', JStr (b64encode [Oaep 7 h]))])"

text \<open>The log entry the loop of \<open>receive_messages\<close> makes of an outcome of its body.\<close>

definition log_entry :: "error + event \<Rightarrow> event" where
  "log_entry r = (case r of Inl e \<Rightarrow> LogError e | Inr ev \<Rightarrow> ev)"

text \<open>Example agents. \<open>handler_of r e\<close> is the crypto handler after \<open>generate_keys\<close> has made
  the RSA pair \<open>r\<close> and the elliptic-curve pair \<open>e\<close>; \<open>address_of e\<close> is the address of the
  elliptic-curve public key \<open>e\<close>; \<open>registered nm r e\<close> is an agent in the registered state
  with these keys, set up as the repository's tests do.\<close>

definition handler_of :: "nat \<Rightarrow> nat \<Rightarrow> CryptoHandler" where
  "handler_of r e =
     \<lparr>u_private_key_pem = Some (fst (generate_rsa_keypair r)),
      u_public_key_pem = Some (snd (generate_rsa_keypair r)),
      u_ecdsa_private_key = Some (fst (generate_ecdsa_keypair e)),
      u_ecdsa_public_key = Some (snd (generate_ecdsa_keypair e))\<rparr>"

definition address_of :: "nat \<Rightarrow> str" where
  "address_of e = S ''0x'' @ [HexSha3Tail e]"

definition registered :: "string \<Rightarrow> nat \<Rightarrow> nat \<Rightarrow> SecureAgent" where
  "registered nm r e =
     (SecureAgent_init (S nm) (handler_of r e) (S ''agent'') 0)
       \<lparr>identity := Some \<lparr>i_address = address_of e, i_public_key = snd (generate_rsa_keypair r),
                          i_did_document = S ''{}'', i_role = S ''agent'',
                          i_registration_time = S ''2025-01-01T00:00:00'', i_is_active = True\<rparr>,
        address := Some (address_of e)\<rparr>"

text \<open>A crypto handler loaded from a key store whose file \<^verbatim>\<open>rsa_public.pem\<close> holds the
  elliptic-curve public key: the one kind of handler with which \<open>register\<close> gets past the
  derivation of the address.\<close>

definition keystore_handler :: CryptoHandler where
  "keystore_handler =
     \<lparr>u_private_key_pem = Some (fst (generate_rsa_keypair 1)),
      u_public_key_pem = Some [PemEcPublic 2],
      u_ecdsa_private_key = Some [PemEcPrivate 2],
      u_ecdsa_public_key = Some [PemEcPublic 2]\<rparr>"

definition example_width :: "sym \<Rightarrow> nat" where
  "example_width x = (case x of B64 _ \<Rightarrow> 96 | HexSha256 _ \<Rightarrow> 64 | HexSha3Tail _ \<Rightarrow> 40 | _ \<Rightarrow> 1)"

definition example_payload :: json where
  "example_payload = JObj [(''amount'', JInt 100)]"

definition example_runtime :: runtime where
  "example_runtime =
     \<lparr>width = example_width,
      json_loads = (\<lambda>b. if b = json_dumps False example_payload then Inr example_payload
                         else Inl JSONDecodeError),
      fromisoformat = (\<lambda>v. case v of JStr s \<Rightarrow> Inr s | _ \<Rightarrow> Inl TypeError),
      utcnow = (\<lambda>_. S ''2025-01-01T00:00:00''),
      time_us = 7,
      entropy_src = example_entropy,
      rsa_seed = 1,
      ecdsa_seed = 2,
      save_keys = None\<rparr>"

text \<open>A ledger that lists agent A (keys 1 and 2) with its signature-verification key and
  agent B (keys 3 and 4) with its encryption key, and accepts every transaction; and one
  whose \<^verbatim>\<open>register_agent\<close> fails.\<close>

definition example_ledger :: ledger where
  "example_ledger =
     \<lparr>register_agent = (\<lambda>_ _ _. Inr (S ''0x1234'')),
      get_agent_info = (\<lambda>addr.
         if addr = JStr (address_of 2)
         then Inr (Some [(''address'', JStr (address_of 2)), (''public_key'', JStr [PemEcPublic 2]),
                         (''is_active'', JBool True)])
         else if addr = JStr (address_of 4)
         then Inr (Some [(''address'', JStr (address_of 4)), (''public_key'', JStr [PemRsaPublic 3]),
                         (''is_active'', JBool True)])
         else Inr None),
      client_send_message = (\<lambda>_. Inr (S ''0xmsg''))\<rparr>"

definition failing_ledger :: ledger where
  "failing_ledger = example_ledger\<lparr>register_agent := (\<lambda>_ _ _. Inl (LedgerError ''Registration transaction failed''))\<rparr>"

definition keystore_agent :: SecureAgent where
  "keystore_agent = SecureAgent_init (S ''A'') keystore_handler (S ''agent'') 0"

text \<open>A payload padded with \<open>k\<close> characters, to meet the size threshold exactly.\<close>

definition pad_payload :: "nat \<Rightarrow> json" where
  "pad_payload k = JObj [(''note'', JStr (S (replicate k CHR ''x'')))]"

text \<open>The envelope \<open>send_message\<close> signs for agent A (keys 1 and 2) sending \<open>pad_payload k\<close>
  unencrypted to agent B at clock reading 7.\<close>

definition padded_envelope :: "nat \<Rightarrow> dict" where
  "padded_envelope k =
     (let md0 = [(''id'', JStr (S ''msg_7'')),
                 (''from'', JStr (address_of 2)),
                 (''to'', JStr (address_of 4)),
                 (''payload'', pad_payload k),
                 (''timestamp'', JStr (S ''2025-01-01T00:00:00'')),
                 (''priority'', JStr (S ''normal'')),
                 (''neural_signature'', JStr (S ''AICUBE_AGENT_A_NEURAL_0x00000000'')),
                 (''quantum_protected'', JBool True)]
      in md0 @ [(''signature'', JStr (b64encode
                  [EcdsaDer 2 (NEURAL_SIGNATURE_PATTERN @ json_dumps True (JObj md0))]))])"

text \<open>Envelopes of a sender outside the framework, who holds the elliptic-curve key 2 that
  the ledger lists and signs the canonical JSON itself, as \<open>verify_message_signature\<close>
  expects: one without the \<^verbatim>\<open>AICUBE_AGENT_\<close> tag, and one that carries the tag and an
  encrypted payload whose ciphertext was replaced in transit.\<close>

definition foreign_signed :: "dict \<Rightarrow> dict" where
  "foreign_signed body =
     body @ [(''signature'', JStr (b64encode [EcdsaDer 2 (json_dumps True (JObj body))]))]"

definition foreign_body :: dict where
  "foreign_body =
     [(''id'', JStr (S ''ext-1'')),
      (''from'', JStr (address_of 2)),
      (''to'', JStr (address_of 4)),
      (''payload'', example_payload),
      (''timestamp'', JStr (S ''2025-01-01T00:00:00'')),
      (''neural_signature'', JStr (S ''OTHER_PROTOCOL_1''))]"

text \<open>An envelope of the same sender whose \<^verbatim>\<open>neural_signature\<close> field is \<^verbatim>\<open>null\<close>.\<close>

definition null_tag_body :: dict where
  "null_tag_body =
     [(''id'', JStr (S ''ext-4'')),
      (''from'', JStr (address_of 2)),
      (''to'', JStr (address_of 4)),
      (''payload'', example_payload),
      (''timestamp'', JStr (S ''2025-01-01T00:00:00'')),
      (''neural_signature'', JNull)]"

definition tampered_body :: dict where
  "tampered_body =
     [(''id'', JStr (S ''ext-2'')),
      (''from'', JStr (address_of 2)),
      (''to'', JStr (address_of 4)),
      (''timestamp'', JStr (S ''2025-01-01T00:00:00'')),
      (''neural_signature'', JStr (S ''AICUBE_AGENT_X_NEURAL_0x00000000'')),
      (''encrypted_payload'',
         JObj (dict_set (sealed example_entropy (json_dumps False example_payload) 3)
                 ''ciphertext'' (JStr (b64encode (S ''garbage'')))))]"

definition stranger_envelope :: dict where
  "stranger_envelope =
     [(''id'', JStr (S ''ext-3'')), (''from'', JStr (S ''0xunknown'')), (''to'', JStr (address_of 4)),
      (''payload'', example_payload), (''signature'', JStr (S ''c2ln''))]"

section \<open>The hybrid cipher\<close>

lemma token_bytes_len [simp]: "length (fst (token_bytes n src)) = n"
  by (simp add: token_bytes_def)

lemma pattern_len [simp]: "length NEURAL_SIGNATURE_PATTERN = 32"
  by (simp add: NEURAL_SIGNATURE_PATTERN_def S_def)

lemma header_len [simp]: "length QUANTUM_SHIELD_HEADER = 27"
  by (simp add: QUANTUM_SHIELD_HEADER_def S_def)

lemma startswith_append [simp]: "startswith (p @ xs) p"
  by (simp add: startswith_def)

lemma startswith_split: "startswith xs p \<Longrightarrow> xs = p @ drop (length p) xs"
  by (metis append_take_drop_id startswith_def)

lemma strip_generated [simp]: "strip_quantum_shield (QUANTUM_SHIELD_HEADER @ xs) = xs"
  by (simp add: strip_quantum_shield_def)

lemma bindE_simps [simp]: "bindE (Inl e) f = Inl e" "bindE (Inr x) f = f x"
  by (simp_all add: bindE_def)

lemma bindE_Inr_iff: "bindE m f = Inr y \<longleftrightarrow> (\<exists>x. m = Inr x \<and> f x = Inr y)"
  by (cases m) simp_all

lemma and_then_quiet_Inr [simp]: "and_then (quiet (Inr x)) f = f x"
  by (simp add: and_then_def quiet_def split: prod.splits)

lemma and_then_quiet_Inl [simp]: "and_then (quiet (Inl e)) f = ([], Inl e)"
  by (simp add: and_then_def quiet_def)

lemma and_then_calling_Inr [simp]:
  "and_then (calling c (Inr x)) f = (c # fst (f x), snd (f x))"
  by (simp add: and_then_def calling_def split: prod.splits)

lemma and_then_calling_Inl [simp]: "and_then (calling c (Inl e)) f = ([c], Inl e)"
  by (simp add: and_then_def calling_def)

lemma quiet_sel [simp]: "fst (quiet r) = []" "snd (quiet r) = r"
  by (simp_all add: quiet_def)

lemma snd_calling [simp]: "snd (calling c r) = r"
  by (simp add: calling_def)

lemma snd_and_then_Inr:
  "snd (and_then m f) = Inr y \<longleftrightarrow> (\<exists>x. snd m = Inr x \<and> snd (f x) = Inr y)"
  by (cases m) (auto simp: and_then_def split: sum.splits prod.splits)

lemma encrypt_generated: "encrypt_message src P [PemRsaPublic n] = Inr (sealed src P n)"
  by (simp add: encrypt_message_def sealed_def Let_def split_beta aes_key_size_def
      hmac_key_size_def aes_gcm_encrypt_def aes_gcm_cipher_def load_pem_public_key_def
      oaep_encrypt_def)

lemmas decrypt_defs = decrypt_message_def decrypt_message_traced_def item_def
  b64decode_def b64encode_def load_pem_private_key_def aes_gcm_decrypt_def
  aes_gcm_cipher_def hmac_sha256_def

lemma oaep_decrypt_Inr: "oaep_decrypt (RSAPrivateKey n) c = Inr m \<longleftrightarrow> c = [Oaep n m]"
  by (simp add: oaep_decrypt_def split: list.splits sym.splits)

lemma oaep_decrypt_same [simp]: "oaep_decrypt (RSAPrivateKey n) [Oaep n m] = Inr m"
  by (simp add: oaep_decrypt_def)

lemma oaep_decrypt_Inl:
  "oaep_decrypt (RSAPrivateKey n) c = Inl e \<Longrightarrow> e = ValueError ''Decryption failed''"
  by (simp add: oaep_decrypt_def split: list.splits sym.splits if_splits)

lemma aes_gcm_decrypt_Inr:
  "aes_gcm_decrypt key iv tag ct = Inr pt \<Longrightarrow> ct = [GcmCiphertext key iv pt]"
  by (auto simp: aes_gcm_decrypt_def bindE_def split: sum.splits list.splits sym.splits if_splits)

lemma decrypt_sealed:
  "decrypt_message (sealed src P n) (QUANTUM_SHIELD_HEADER @ [PemRsaPrivate n]) = Inr P"
  by (simp add: sealed_def Let_def decrypt_defs)

text \<open>
  \<^bold>\<open>C2\<close> (hybrid-cipher round trip). For every plaintext \<open>P\<close>, every state of the random
  source and every RSA key pair made by \<open>generate_rsa_keypair\<close>, \<open>encrypt_message\<close> for the
  public key returns a block, and \<open>decrypt_message\<close> of that block with the private key
  returns exactly \<open>P\<close>.
\<close>

theorem hybrid_round_trip:
  "\<exists>B. encrypt_message src P (snd (generate_rsa_keypair n)) = Inr B \<and>
       decrypt_message B (fst (generate_rsa_keypair n)) = Inr P"
  by (simp add: generate_rsa_keypair_def encrypt_generated decrypt_sealed)

theorem hybrid_round_trip_witness:
  "\<exists>B. encrypt_message example_entropy (S ''attack at dawn'') (snd (generate_rsa_keypair 1)) = Inr B \<and>
       decrypt_message B (fst (generate_rsa_keypair 1)) = Inr (S ''attack at dawn'')"
  by (rule hybrid_round_trip)

text \<open>
  \<^bold>\<open>C6\<close> (fail-closed integrity order). For every block \<open>B\<close> and private key: when the key
  loads, both wrapped keys unwrap and the ciphertext and the stored keyed hash decode, and
  the HMAC recomputed over the ciphertext differs from the stored one, then
  \<open>decrypt_message\<close> fails with \<open>IntegrityError\<close>, and the library operations it has
  performed are the two unwrappings and the HMAC verification: AES-GCM decryption is not
  among them.
\<close>

theorem integrity_checked_before_decryption:
  assumes "load_pem_private_key (strip_quantum_shield priv) = Inr sk"
    and "bindE (item B ''encrypted_aes_key'') b64decode = Inr eak"
    and "oaep_decrypt sk eak = Inr aes_key"
    and "bindE (item B ''encrypted_hmac_key'') b64decode = Inr ehk"
    and "oaep_decrypt sk ehk = Inr hmac_key"
    and "bindE (item B ''ciphertext'') b64decode = Inr ct"
    and "bindE (item B ''hmac'') b64decode = Inr expected"
    and "hmac_sha256 hmac_key ct \<noteq> expected"
  shows "decrypt_message B priv = Inl IntegrityError
       \<and> fst (decrypt_message_traced B priv) = [OaepDecrypt, OaepDecrypt, HmacVerify]
       \<and> AesGcmDecrypt \<notin> set (fst (decrypt_message_traced B priv))"
  using assms by (simp add: decrypt_message_def decrypt_message_traced_def)

theorem integrity_checked_before_decryption_witness:
  "decrypt_message (dict_set (sealed example_entropy (S ''pay 100'') 1) ''hmac'' (JStr (b64encode (S ''forged''))))
       (fst (generate_rsa_keypair 1)) = Inl IntegrityError
   \<and> fst (decrypt_message_traced (dict_set (sealed example_entropy (S ''pay 100'') 1) ''hmac'' (JStr (b64encode (S ''forged''))))
       (fst (generate_rsa_keypair 1))) = [OaepDecrypt, OaepDecrypt, HmacVerify]
   \<and> AesGcmDecrypt \<notin> set (fst (decrypt_message_traced (dict_set (sealed example_entropy (S ''pay 100'') 1) ''hmac'' (JStr (b64encode (S ''forged''))))
       (fst (generate_rsa_keypair 1))))"
proof -
  let ?B = "dict_set (sealed example_entropy (S ''pay 100'') 1) ''hmac'' (JStr (b64encode (S ''forged'')))"
  let ?k = "fst (token_bytes 32 example_entropy)"
  let ?iv = "fst (token_bytes 12 (snd (token_bytes 32 example_entropy)))"
  let ?h = "fst (token_bytes 32 (snd (token_bytes 12 (snd (token_bytes 32 example_entropy)))))"
  let ?ct = "[GcmCiphertext ?k ?iv (NEURAL_SIGNATURE_PATTERN @ S ''pay 100'')]"
  have 1: "load_pem_private_key (strip_quantum_shield (fst (generate_rsa_keypair 1))) = Inr (RSAPrivateKey 1)"
    by (simp add: generate_rsa_keypair_def load_pem_private_key_def)
  have 2: "bindE (item ?B ''encrypted_aes_key'') b64decode = Inr [Oaep 1 ?k]"
    by (simp add: sealed_def Let_def dict_set_def item_def b64decode_def b64encode_def)
  have 3: "oaep_decrypt (RSAPrivateKey 1) [Oaep 1 ?k] = Inr ?k" by simp
  have 4: "bindE (item ?B ''encrypted_hmac_key'') b64decode = Inr [Oaep 1 ?h]"
    by (simp add: sealed_def Let_def dict_set_def item_def b64decode_def b64encode_def)
  have 5: "oaep_decrypt (RSAPrivateKey 1) [Oaep 1 ?h] = Inr ?h" by simp
  have 6: "bindE (item ?B ''ciphertext'') b64decode = Inr ?ct"
    by (simp add: sealed_def Let_def dict_set_def item_def b64decode_def b64encode_def)
  have 7: "bindE (item ?B ''hmac'') b64decode = Inr (S ''forged'')"
    by (simp add: sealed_def Let_def dict_set_def item_def b64decode_def b64encode_def)
  have 8: "hmac_sha256 ?h ?ct \<noteq> S ''forged''"
    by (simp add: hmac_sha256_def S_def)
  show ?thesis
    by (rule integrity_checked_before_decryption [OF 1 2 3 4 5 6 7 8])
qed

lemma tamper_ciphertext:
  assumes "bindE (item (sealed src P n) ''ciphertext'') b64decode = Inr x" and "x' \<noteq> x"
  shows "decrypt_message (dict_set (sealed src P n) ''ciphertext'' (JStr (b64encode x')))
           (QUANTUM_SHIELD_HEADER @ [PemRsaPrivate n]) = Inl IntegrityError"
  using assms
  by (auto simp add: sealed_def Let_def dict_set_def decrypt_defs)

lemma tamper_hmac_key:
  assumes "bindE (item (sealed src P n) ''encrypted_hmac_key'') b64decode = Inr x" and "x' \<noteq> x"
  shows "decrypt_message (dict_set (sealed src P n) ''encrypted_hmac_key'' (JStr (b64encode x')))
           (QUANTUM_SHIELD_HEADER @ [PemRsaPrivate n])
         \<in> {Inl IntegrityError, Inl (ValueError ''Decryption failed'')}"
proof (cases "oaep_decrypt (RSAPrivateKey n) x'")
  case (Inl e)
  then have "e = ValueError ''Decryption failed''" by (rule oaep_decrypt_Inl)
  with Inl show ?thesis
    by (simp add: sealed_def Let_def dict_set_def decrypt_defs)
next
  case (Inr k')
  then have x': "x' = [Oaep n k']" by (simp add: oaep_decrypt_Inr)
  with assms have "k' \<noteq> fst (token_bytes 32 (snd (token_bytes 12 (snd (token_bytes 32 src)))))"
    by (auto simp: sealed_def Let_def item_def b64decode_def b64encode_def)
  with Inr show ?thesis
    by (simp add: sealed_def Let_def dict_set_def decrypt_defs)
qed

lemma tamper_aes_key:
  assumes "bindE (item (sealed src P n) ''encrypted_aes_key'') b64decode = Inr x" and "x' \<noteq> x"
  shows "\<exists>e. decrypt_message (dict_set (sealed src P n) ''encrypted_aes_key'' (JStr (b64encode x')))
           (QUANTUM_SHIELD_HEADER @ [PemRsaPrivate n]) = Inl e \<and> is_DecryptionError e"
proof (cases "oaep_decrypt (RSAPrivateKey n) x'")
  case (Inl e)
  then have "e = ValueError ''Decryption failed''" by (rule oaep_decrypt_Inl)
  with Inl show ?thesis
    by (simp add: sealed_def Let_def dict_set_def decrypt_defs is_DecryptionError_def)
next
  case (Inr k')
  then have x': "x' = [Oaep n k']" by (simp add: oaep_decrypt_Inr)
  with assms have "k' \<noteq> fst (token_bytes 32 src)"
    by (auto simp: sealed_def Let_def item_def b64decode_def b64encode_def)
  with Inr show ?thesis
    by (simp add: sealed_def Let_def dict_set_def decrypt_defs is_DecryptionError_def)
qed

text \<open>
  \<^bold>\<open>C9\<close> (tamper detection). Let \<open>B\<close> be the block \<open>encrypt_message\<close> makes from a plaintext
  for the public key of a generated pair. Replacing the bytes of its ciphertext, of its
  wrapped symmetric key or of its wrapped integrity key by any other bytes \<open>x'\<close> (in
  particular by the same bytes with one bit flipped) makes \<open>decrypt_message\<close> with the
  private key fail, with \<open>IntegrityError\<close> or a \<open>DecryptionError\<close>; so it returns no
  plaintext at all.
\<close>

theorem tamper_detected:
  assumes "encrypt_message src P (snd (generate_rsa_keypair n)) = Inr B"
    and "field \<in> {''ciphertext'', ''encrypted_aes_key'', ''encrypted_hmac_key''}"
    and "bindE (item B field) b64decode = Inr x"
    and "x' \<noteq> x"
  shows "\<exists>e. decrypt_message (dict_set B field (JStr (b64encode x'))) (fst (generate_rsa_keypair n)) = Inl e
           \<and> (e = IntegrityError \<or> is_DecryptionError e)"
proof -
  from assms(1) have B: "B = sealed src P n"
    by (simp add: generate_rsa_keypair_def encrypt_generated)
  have priv: "fst (generate_rsa_keypair n) = QUANTUM_SHIELD_HEADER @ [PemRsaPrivate n]"
    by (simp add: generate_rsa_keypair_def)
  from assms(2) consider "field = ''ciphertext''" | "field = ''encrypted_aes_key''"
    | "field = ''encrypted_hmac_key''" by auto
  then show ?thesis
  proof cases
    case 1
    with assms(3,4) tamper_ciphertext [of src P n x x'] show ?thesis unfolding B priv
      by simp
  next
    case 2
    with assms(3,4) tamper_aes_key [of src P n x x'] show ?thesis unfolding B priv
      by blast
  next
    case 3
    with assms(3,4) tamper_hmac_key [of src P n x x'] show ?thesis unfolding B priv
      by (auto simp: is_DecryptionError_def)
  qed
qed

theorem tamper_detected_witness:
  "encrypt_message example_entropy (S ''pay 100'') (snd (generate_rsa_keypair 1))
     = Inr (sealed example_entropy (S ''pay 100'') 1)
   \<and> bindE (item (sealed example_entropy (S ''pay 100'') 1) ''encrypted_aes_key'') b64decode
     = Inr [Oaep 1 (fst (token_bytes 32 example_entropy))]
   \<and> S ''garbage'' \<noteq> [Oaep 1 (fst (token_bytes 32 example_entropy))]
   \<and> (\<exists>e. decrypt_message (dict_set (sealed example_entropy (S ''pay 100'') 1) ''encrypted_aes_key''
              (JStr (b64encode (S ''garbage'')))) (fst (generate_rsa_keypair 1)) = Inl e
           \<and> (e = IntegrityError \<or> is_DecryptionError e))"
proof -
  have 1: "encrypt_message example_entropy (S ''pay 100'') (snd (generate_rsa_keypair 1))
     = Inr (sealed example_entropy (S ''pay 100'') 1)"
    by (simp add: generate_rsa_keypair_def encrypt_generated)
  have 2: "''encrypted_aes_key'' \<in> {''ciphertext'', ''encrypted_aes_key'', ''encrypted_hmac_key''}"
    by simp
  have 3: "bindE (item (sealed example_entropy (S ''pay 100'') 1) ''encrypted_aes_key'') b64decode
     = Inr [Oaep 1 (fst (token_bytes 32 example_entropy))]"
    by (simp add: sealed_def Let_def item_def b64decode_def b64encode_def)
  have 4: "S ''garbage'' \<noteq> [Oaep 1 (fst (token_bytes 32 example_entropy))]"
    by (simp add: S_def)
  from tamper_detected [OF 1 2 3 4] 1 3 4 show ?thesis by blast
qed

lemma decrypt_message_Inr:
  assumes "decrypt_message B priv = Inr m"
  shows "\<exists>key iv. bindE (item B ''ciphertext'') b64decode
                    = Inr [GcmCiphertext key iv (NEURAL_SIGNATURE_PATTERN @ m)]"
proof -
  from assms obtain aes_key ciphertext iv tag enhanced_message where
    ct: "bindE (item B ''ciphertext'') b64decode = Inr ciphertext"
    and dec: "aes_gcm_decrypt aes_key iv tag ciphertext = Inr enhanced_message"
    and fin: "snd (if \<not> startswith enhanced_message NEURAL_SIGNATURE_PATTERN
     then quiet (Inl (ValueError ''AICUBE Neural Signature verification failed''))
     else quiet (Inr (drop (length NEURAL_SIGNATURE_PATTERN) enhanced_message))) = Inr m"
    unfolding decrypt_message_def decrypt_message_traced_def snd_and_then_Inr Let_def
    by (auto simp del: pattern_len)
  from fin have pre: "startswith enhanced_message NEURAL_SIGNATURE_PATTERN"
    and m: "m = drop (length NEURAL_SIGNATURE_PATTERN) enhanced_message"
    by (auto split: if_splits)
  from startswith_split [OF pre] m have "enhanced_message = NEURAL_SIGNATURE_PATTERN @ m" by simp
  with aes_gcm_decrypt_Inr [OF dec] ct show ?thesis by blast
qed

lemma unsigned_block_decrypt:
  "decrypt_message unsigned_block (fst (generate_rsa_keypair 7))
     = Inl (ValueError ''AICUBE Neural Signature verification failed'')"
  by (simp add: unsigned_block_def Let_def generate_rsa_keypair_def decrypt_defs S_def
      startswith_def NEURAL_SIGNATURE_PATTERN_def)

text \<open>
  \<^bold>\<open>C10\<close> (the prefix invariant of seal and open). \<open>decrypt_message\<close> returns \<open>m\<close> only if
  the ciphertext of the block is the AES-GCM encryption of the neural signature pattern
  followed by \<open>m\<close>: the text inside begins with the pattern, and the caller gets it with
  the pattern stripped. A block whose ciphertext encrypts a text \<open>pt\<close> that does not begin
  with the pattern is never opened: \<open>decrypt_message\<close> raises.
\<close>

theorem neural_prefix_required:
  "(decrypt_message B priv = Inr m \<longrightarrow>
      (\<exists>key iv. bindE (item B ''ciphertext'') b64decode
                  = Inr [GcmCiphertext key iv (NEURAL_SIGNATURE_PATTERN @ m)]))
   \<and> (bindE (item B ''ciphertext'') b64decode = Inr [GcmCiphertext key iv pt]
        \<and> \<not> startswith pt NEURAL_SIGNATURE_PATTERN
      \<longrightarrow> (\<exists>e. decrypt_message B priv = Inl e))"
proof (intro conjI impI)
  assume "decrypt_message B priv = Inr m"
  then show "\<exists>key iv. bindE (item B ''ciphertext'') b64decode
                        = Inr [GcmCiphertext key iv (NEURAL_SIGNATURE_PATTERN @ m)]"
    by (rule decrypt_message_Inr)
next
  assume a: "bindE (item B ''ciphertext'') b64decode = Inr [GcmCiphertext key iv pt]
             \<and> \<not> startswith pt NEURAL_SIGNATURE_PATTERN"
  show "\<exists>e. decrypt_message B priv = Inl e"
  proof (cases "decrypt_message B priv")
    case (Inl e)
    then show ?thesis by blast
  next
    case (Inr m)
    from decrypt_message_Inr [OF Inr] a have "pt = NEURAL_SIGNATURE_PATTERN @ m" by auto
    with a show ?thesis by simp
  qed
qed

theorem neural_prefix_required_witness:
  "bindE (item unsigned_block ''ciphertext'') b64decode
     = Inr [GcmCiphertext (S (replicate 32 CHR ''k'')) (S (replicate 12 CHR ''n'')) (S ''hello'')]
   \<and> \<not> startswith (S ''hello'') NEURAL_SIGNATURE_PATTERN
   \<and> decrypt_message unsigned_block (fst (generate_rsa_keypair 7))
     = Inl (ValueError ''AICUBE Neural Signature verification failed'')
   \<and> decrypt_message (sealed example_entropy (S ''hello'') 7) (fst (generate_rsa_keypair 7)) = Inr (S ''hello'')
   \<and> (\<exists>key iv. bindE (item (sealed example_entropy (S ''hello'') 7) ''ciphertext'') b64decode
                  = Inr [GcmCiphertext key iv (NEURAL_SIGNATURE_PATTERN @ S ''hello'')])"
proof -
  have 1: "bindE (item unsigned_block ''ciphertext'') b64decode
     = Inr [GcmCiphertext (S (replicate 32 CHR ''k'')) (S (replicate 12 CHR ''n'')) (S ''hello'')]"
    by (simp add: unsigned_block_def Let_def item_def b64decode_def b64encode_def)
  have 2: "\<not> startswith (S ''hello'') NEURAL_SIGNATURE_PATTERN"
    by (simp add: startswith_def S_def NEURAL_SIGNATURE_PATTERN_def)
  have 3: "decrypt_message (sealed example_entropy (S ''hello'') 7) (fst (generate_rsa_keypair 7)) = Inr (S ''hello'')"
    by (simp add: generate_rsa_keypair_def decrypt_sealed)
  from neural_prefix_required [of "sealed example_entropy (S ''hello'') 7" "fst (generate_rsa_keypair 7)" "S ''hello''"] 3
  have 4: "\<exists>key iv. bindE (item (sealed example_entropy (S ''hello'') 7) ''ciphertext'') b64decode
                  = Inr [GcmCiphertext key iv (NEURAL_SIGNATURE_PATTERN @ S ''hello'')]"
    by blast
  from 1 2 3 4 unsigned_block_decrypt show ?thesis by blast
qed

section \<open>The agent\<close>

lemma py_len_Nil [simp]: "py_len w [] = 0"
  by (simp add: py_len_def)

lemma py_len_append [simp]: "py_len w (xs @ ys) = py_len w xs + py_len w ys"
  by (simp add: py_len_def)





declare json_dumps.simps [simp del]

lemma pop_removes: "dict_pop d k = Inr (v, d') \<Longrightarrow> item d' k = Inl (KeyError k)"
  by (auto simp: dict_pop_def item_def map_of_eq_None_iff split: option.splits)

lemma verified_no_signature:
  "verify_message_signature m pk = (True, m') \<Longrightarrow> item m' ''signature'' = Inl (KeyError ''signature'')"
  by (auto simp: verify_message_signature_def Let_def split: sum.splits json.splits dest: pop_removes)

text \<open>After a successful verification the signature is gone from \<^verbatim>\<open>raw_message\<close>, and the
  construction of the record reads \<^verbatim>\<open>raw_message["signature"]\<close>: the body never yields.\<close>

lemma body_never_yields: "receive_messages_body rt L a raw \<noteq> Inr (Yield m)"
  by (auto simp: receive_messages_body_def bindE_Inr_iff dest!: verified_no_signature
      split: option.splits if_splits prod.splits)

lemma receive_loop_append:
  "receive_loop rt L a (pre @ post) = receive_loop rt L a pre @ receive_loop rt L a post"
  by (induction pre) (auto split: sum.splits)

lemma unknown_sender_skipped:
  assumes "item raw ''from'' = Inr frm" and "get_agent_info L frm = Inr None"
  shows "receive_messages_body rt L a raw = Inr (LogWarning ''Unknown sender'')"
  using assms by (simp add: receive_messages_body_def)

lemma invalid_signature_skipped:
  assumes "item raw ''from'' = Inr frm" and "get_agent_info L frm = Inr (Some info)" and "info \<noteq> []"
    and "item info ''public_key'' = Inr pk" and "\<not> fst (verify_message_signature raw pk)"
  shows "receive_messages_body rt L a raw = Inr (LogWarning ''Invalid signature'')"
  using assms by (cases "verify_message_signature raw pk") (simp add: receive_messages_body_def)

lemma sign_Inr_iff:
  "CryptoHandler_sign_message h m = Inr s \<longleftrightarrow>
     \<not> not_bytes (u_ecdsa_private_key h) \<and>
     (\<exists>n. load_pem_private_key (strip_quantum_shield (the (u_ecdsa_private_key h)))
            = Inr (EllipticCurvePrivateKey n)
          \<and> s = b64encode [EcdsaDer n (NEURAL_SIGNATURE_PATTERN @ m)])"
proof (cases "load_pem_private_key (strip_quantum_shield (the (u_ecdsa_private_key h)))")
  case (Inl e)
  then show ?thesis
    by (simp add: CryptoHandler_sign_message_def sign_message_def Let_def)
next
  case (Inr k)
  then show ?thesis
    by (cases k) (auto simp: CryptoHandler_sign_message_def sign_message_def ecdsa_sign_def Let_def)
qed

lemma has_keys_generate: "has_keys (fst (generate_keys rt h))"
  by (simp add: generate_keys_def has_keys_def Let_def split_beta)

lemma register_success_facts:
  assumes "register rt L a = (a1, Inr tx)"
  shows "has_keys (crypto_handler a1)
       \<and> (\<exists>pk addr. get_public_key (crypto_handler a1) = Inr pk
             \<and> generate_address_from_public_key pk = Inr addr \<and> address a1 = Some addr)
       \<and> (\<exists>m s. CryptoHandler_sign_message (crypto_handler a1) m = Inr s)
       \<and> identity a1 \<noteq> None"
  using assms has_keys_generate [of rt "crypto_handler a"]
  apply (simp add: register_def Let_def split_beta split: sum.splits prod.splits if_splits)
   apply (auto simp: bindE_Inr_iff get_public_key_hex_def Let_def)
   apply blast+
  done

lemma strip_no_header [simp]: "strip_quantum_shield [PemEcPrivate n] = [PemEcPrivate n]"
  by (simp add: strip_quantum_shield_def startswith_def QUANTUM_SHIELD_HEADER_def S_def)

lemmas register_eval = register_def Let_def keystore_agent_def SecureAgent_init_def
  keystore_handler_def has_keys_def get_public_key_def not_bytes_def
  generate_address_from_public_key_def load_pem_public_key_def get_public_key_hex_def
  CryptoHandler_sign_message_def sign_message_def load_pem_private_key_def ecdsa_sign_def

lemma register_keystore_agent_ok:
  "snd (register example_runtime example_ledger keystore_agent) = Inr (S ''0x1234'')"
  by (simp add: register_eval example_ledger_def)

lemma register_keystore_agent_pair:
  "register example_runtime example_ledger keystore_agent
     = (fst (register example_runtime example_ledger keystore_agent), Inr (S ''0x1234''))"
  by (simp add: prod_eq_iff register_keystore_agent_ok)


text \<open>
  \<^bold>\<open>C4\<close> (duplicate registration), as amended. \<open>register\<close> has no guard against a second
  call. On an agent on which \<open>register\<close> has completed successfully, a second call builds
  a new DID document for the agent's address, signs its canonical serialisation with the
  agent's elliptic-curve key, and calls the ledger collaborator's \<^verbatim>\<open>register_agent\<close> again
  with the SHA-256 hex digest of the same public key, that document and that signature.
  If the collaborator fails, the second call raises the collaborator's exception and
  leaves the agent as it was; if the collaborator returns a transaction hash, the second
  call returns it and replaces the stored identity by one with the new document and the
  new registration time.
\<close>

theorem second_register_signs_and_submits:
  assumes "register rt L a = (a1, Inr tx1)"
  shows "\<exists>pk addr n.
           get_public_key (crypto_handler a1) = Inr pk
         \<and> address a1 = Some addr
         \<and> load_pem_private_key (strip_quantum_shield (the (u_ecdsa_private_key (crypto_handler a1))))
             = Inr (EllipticCurvePrivateKey n)
         \<and> (let did = JObj [(''id'', JStr (S ''did:aicube:'' @ addr)),
                             (''name'', JStr (name a1)),
                             (''role'', JStr (role a1)),
                             (''publicKey'', JStr [B64 pk]),
                             (''created'', JStr (utcnow rt' 0)),
                             (''neural_signature'', JStr (u_neural_signature a1)),
                             (''quantum_shield'', JBool (u_quantum_shield_active a1)),
                             (''aicube_version'', JStr (S ''2.0.0''))]
            in register rt' L' a1 =
                 (case register_agent L' [HexSha256 pk] (json_dumps False did)
                         [B64 [EcdsaDer n (NEURAL_SIGNATURE_PATTERN @ json_dumps True did)]] of
                    Inl e \<Rightarrow> (a1, Inl e)
                  | Inr tx \<Rightarrow>
                      (a1\<lparr>identity := Some \<lparr>i_address = addr, i_public_key = pk,
                              i_did_document = json_dumps False did, i_role = role a1,
                              i_registration_time = utcnow rt' 1, i_is_active = True\<rparr>\<rparr>,
                       Inr tx)))"
proof -
  from register_success_facts [OF assms] obtain pk addr m s where
    k: "has_keys (crypto_handler a1)"
    and pk: "get_public_key (crypto_handler a1) = Inr pk"
    and ad: "generate_address_from_public_key pk = Inr addr"
    and adr: "address a1 = Some addr"
    and sg: "CryptoHandler_sign_message (crypto_handler a1) m = Inr s"
    by blast
  from sg obtain n where
    key: "load_pem_private_key (strip_quantum_shield (the (u_ecdsa_private_key (crypto_handler a1))))
            = Inr (EllipticCurvePrivateKey n)"
    and sign: "\<And>m'. CryptoHandler_sign_message (crypto_handler a1) m'
                 = Inr (b64encode [EcdsaDer n (NEURAL_SIGNATURE_PATTERN @ m')])"
    unfolding sign_Inr_iff by blast
  have same: "a1\<lparr>address := Some addr\<rparr> = a1"
    using adr by (cases a1) simp
  let ?did = "JObj [(''id'', JStr (S ''did:aicube:'' @ addr)),
                    (''name'', JStr (name a1)),
                    (''role'', JStr (role a1)),
                    (''publicKey'', JStr [B64 pk]),
                    (''created'', JStr (utcnow rt' 0)),
                    (''neural_signature'', JStr (u_neural_signature a1)),
                    (''quantum_shield'', JBool (u_quantum_shield_active a1)),
                    (''aicube_version'', JStr (S ''2.0.0''))]"
  have "register rt' L' a1 =
          (case register_agent L' [HexSha256 pk] (json_dumps False ?did)
                  [B64 [EcdsaDer n (NEURAL_SIGNATURE_PATTERN @ json_dumps True ?did)]] of
             Inl e \<Rightarrow> (a1, Inl e)
           | Inr tx \<Rightarrow>
               (a1\<lparr>identity := Some \<lparr>i_address = addr, i_public_key = pk,
                       i_did_document = json_dumps False ?did, i_role = role a1,
                       i_registration_time = utcnow rt' 1, i_is_active = True\<rparr>\<rparr>,
                Inr tx))"
    by (simp add: register_def Let_def k pk ad sign same get_public_key_hex_def bindE_def
        hash_message_def sha256_hexdigest_def b64encode_def split: sum.splits)
  with pk adr key show ?thesis by (simp add: Let_def)
qed

theorem second_register_signs_and_submits_witness:
  "register example_runtime example_ledger keystore_agent
     = (fst (register example_runtime example_ledger keystore_agent), Inr (S ''0x1234''))
   \<and> register example_runtime failing_ledger (fst (register example_runtime example_ledger keystore_agent))
     = (fst (register example_runtime example_ledger keystore_agent),
        Inl (LedgerError ''Registration transaction failed''))"
  using second_register_signs_and_submits [OF register_keystore_agent_pair, of example_runtime failing_ledger]
    register_keystore_agent_pair
  by (auto simp: Let_def failing_ledger_def)

text \<open>The duplicate-registration claim as stated fails: the keystore agent registers, and its second call of
  \<open>register\<close> returns a transaction hash again instead of failing.\<close>

theorem duplicate_registration_counterexample:
  "snd (register example_runtime example_ledger keystore_agent) = Inr (S ''0x1234'')
   \<and> snd (register example_runtime example_ledger
             (fst (register example_runtime example_ledger keystore_agent))) = Inr (S ''0x1234'')"
  by (simp add: register_eval example_ledger_def)



lemma dict_set_fresh: "k \<notin> fst ` set d \<Longrightarrow> dict_set d k v = d @ [(k, v)]"
  by (simp add: dict_set_def)

lemma sign_envelope_Inr:
  assumes "sign_envelope rt L a recipient payload encrypt priority = Inr (mid, md, mb)"
  shows "\<exists>md0 n. md = md0 @ [(''signature'', JStr (b64encode [EcdsaDer n (NEURAL_SIGNATURE_PATTERN @ mb)]))]
           \<and> mb = json_dumps True (JObj md0)
           \<and> ''signature'' \<notin> fst ` set md0
           \<and> map_of md0 ''from'' = Some (opt_str (address a))
           \<and> map_of md0 ''timestamp'' = Some (JStr (utcnow rt 0))
           \<and> mid = S ''msg_'' @ S (show_nat (time_us rt))"
proof -
  let ?base = "[(''id'', JStr (S ''msg_'' @ S (show_nat (time_us rt)))),
                  (''from'', opt_str (address a)),
                  (''to'', JStr recipient),
                  (''payload'', payload),
                  (''timestamp'', JStr (utcnow rt 0)),
                  (''priority'', JStr priority),
                  (''neural_signature'', JStr (u_neural_signature a)),
                  (''quantum_protected'', JBool (u_quantum_shield_active a))]"
  let ?enc = "\<lambda>info. bindE (item info ''public_key'') (\<lambda>recipient_public_key.
                       case recipient_public_key of
                         JStr pk \<Rightarrow>
                           bindE (encrypt_message (entropy_src rt) (json_dumps False payload) pk)
                             (\<lambda>encrypted_payload.
                               Inr (dict_set (dict_set ?base ''encrypted_payload'' (JObj encrypted_payload))
                                      ''encryption'' (JStr (S ''aes-256-gcm''))))
                       | _ \<Rightarrow> Inl AttributeError)"
  from assms obtain ri where ri: "get_agent_info L (JStr recipient) = Inr ri"
    by (auto simp: sign_envelope_def bindE_Inr_iff)
  with assms obtain info where info: "ri = Some info"
    and act: "\<not> (info = [] \<or> \<not> truthy (dict_get info ''is_active'' JNull))"
    by (cases ri) (auto simp: sign_envelope_def split: if_splits)
  from assms ri info act obtain md0 sg where
    enc: "(if encrypt then ?enc info else Inr ?base) = Inr md0"
    and sg: "CryptoHandler_sign_message (crypto_handler a) (json_dumps True (JObj md0)) = Inr sg"
    and res: "mid = S ''msg_'' @ S (show_nat (time_us rt))" "md = dict_set md0 ''signature'' (JStr sg)"
             "mb = json_dumps True (JObj md0)"
    by (simp add: sign_envelope_def Let_def bindE_Inr_iff) blast
  have md0: "md0 = ?base \<or> (\<exists>ep. md0 = ?base @ [(''encrypted_payload'', JObj ep), (''encryption'', JStr (S ''aes-256-gcm''))])"
  proof (cases encrypt)
    case False
    with enc show ?thesis by simp
  next
    case True
    with enc obtain pkv where pkv: "(case pkv of
                         JStr pk \<Rightarrow>
                           bindE (encrypt_message (entropy_src rt) (json_dumps False payload) pk)
                             (\<lambda>encrypted_payload.
                               Inr (dict_set (dict_set ?base ''encrypted_payload'' (JObj encrypted_payload))
                                      ''encryption'' (JStr (S ''aes-256-gcm''))))
                       | _ \<Rightarrow> Inl AttributeError) = Inr md0"
      by (auto simp: bindE_Inr_iff)
    then obtain ep where
      "md0 = dict_set (dict_set ?base ''encrypted_payload'' (JObj ep)) ''encryption'' (JStr (S ''aes-256-gcm''))"
      by (cases pkv) (auto simp: bindE_Inr_iff)
    then show ?thesis by (simp add: dict_set_def)
  qed
  from md0 have fresh: "''signature'' \<notin> fst ` set md0" by auto
  from md0 have fr: "map_of md0 ''from'' = Some (opt_str (address a))"
    and ts: "map_of md0 ''timestamp'' = Some (JStr (utcnow rt 0))" by auto
  from sg obtain n where "sg = b64encode [EcdsaDer n (NEURAL_SIGNATURE_PATTERN @ json_dumps True (JObj md0))]"
    unfolding sign_Inr_iff by blast
  with res fresh fr ts show ?thesis by (simp add: dict_set_fresh) blast
qed

lemma pattern_nonempty [simp]: "NEURAL_SIGNATURE_PATTERN \<noteq> []"
  by (simp add: NEURAL_SIGNATURE_PATTERN_def S_def)

lemma verify_signature_prefixed:
  "\<not> verify_signature m (JStr (b64encode [EcdsaDer n (NEURAL_SIGNATURE_PATTERN @ m)])) pk"
proof (cases "load_pem_public_key pk")
  case (Inl e)
  then show ?thesis by (simp add: verify_signature_def)
next
  case (Inr k)
  then show ?thesis
    by (cases k) (simp_all add: verify_signature_def b64decode_def b64encode_def ecdsa_verify_def)
qed

lemma pop_appended:
  "k \<notin> fst ` set d \<Longrightarrow> dict_pop (d @ [(k, v)]) k = Inr (v, d)"
proof -
  assume a: "k \<notin> fst ` set d"
  then have "map_of d k = None" by (simp add: map_of_eq_None_iff)
  moreover from a have "filter (\<lambda>kv. fst kv \<noteq> k) d = d" by (induction d) auto
  ultimately show ?thesis by (simp add: dict_pop_def map_add_def)
qed

lemma signed_envelope_rejected:
  assumes "sign_envelope rt L a recipient payload encrypt priority = Inr (mid, md, mb)"
  shows "\<not> fst (verify_message_signature md pk)"
proof -
  from sign_envelope_Inr [OF assms] obtain md0 n where
    md: "md = md0 @ [(''signature'', JStr (b64encode [EcdsaDer n (NEURAL_SIGNATURE_PATTERN @ mb)]))]"
    and mb: "mb = json_dumps True (JObj md0)" and fresh: "''signature'' \<notin> fst ` set md0"
    by blast
  show ?thesis
    by (cases pk) (simp_all add: verify_message_signature_def md pop_appended [OF fresh] mb [symmetric]
        verify_signature_prefixed)
qed

lemma commitment_rejected:
  "\<not> fst (verify_message_signature
      [(''id'', v1), (''from'', v2), (''to'', v3), (''ipfs_hash'', v4), (''message_hash'', v5),
       (''timestamp'', v6), (''neural_signature'', v7)] pk)"
  by (simp add: verify_message_signature_def dict_pop_def)

lemma send_message_call:
  assumes "fst (send_message rt L a recipient payload encrypt priority) = Some call"
  shows "\<exists>mid md mb. sign_envelope rt L a recipient payload encrypt priority = Inr (mid, md, mb)
           \<and> identity a \<noteq> None
           \<and> c_recipient call = recipient \<and> c_message_hash call = hash_message mb
           \<and> (if py_len (width rt) (json_dumps False (JObj md)) > 1024
               then c_ipfs_hash call = Some (snd (store_off_chain md))
                    \<and> c_metadata call =
                        [(''id'', JStr mid), (''from'', opt_str (address a)), (''to'', JStr recipient),
                         (''ipfs_hash'', JStr (snd (store_off_chain md))),
                         (''message_hash'', JStr (hash_message mb)),
                         (''timestamp'', dict_get md ''timestamp'' JNull),
                         (''neural_signature'', JStr (u_neural_signature a))]
               else c_ipfs_hash call = None \<and> c_metadata call = md)"
proof (cases "sign_envelope rt L a recipient payload encrypt priority")
  case (Inl e)
  with assms show ?thesis by (simp add: send_message_def split: if_splits)
next
  case (Inr t)
  obtain mid md mb where t: "t = (mid, md, mb)" by (cases t)
  with assms Inr show ?thesis
    by (auto simp: send_message_def Let_def split_beta split: if_splits)
qed

lemma sent_from:
  assumes "fst (send_message rt L a recipient payload encrypt priority) = Some call"
  shows "item (c_metadata call) ''from'' = Inr (opt_str (address a))"
proof -
  from send_message_call [OF assms] obtain mid md mb where
    se: "sign_envelope rt L a recipient payload encrypt priority = Inr (mid, md, mb)"
    and meta: "if py_len (width rt) (json_dumps False (JObj md)) > 1024
               then c_metadata call =
                        [(''id'', JStr mid), (''from'', opt_str (address a)), (''to'', JStr recipient),
                         (''ipfs_hash'', JStr (snd (store_off_chain md))),
                         (''message_hash'', JStr (hash_message mb)),
                         (''timestamp'', dict_get md ''timestamp'' JNull),
                         (''neural_signature'', JStr (u_neural_signature a))]
               else c_metadata call = md"
    by (auto split: if_splits)
  from sign_envelope_Inr [OF se] have "map_of md ''from'' = Some (opt_str (address a))"
    by (auto simp: map_add_def)
  with meta show ?thesis by (auto simp: item_def split: if_splits)
qed

text \<open>
  \<^bold>\<open>C1\<close> (end-to-end delivery) fails on the code. Whatever \<open>send_message\<close> hands to the
  ledger collaborator, the receive loop of any agent that is delivered it rejects its
  signature for every public key, and yields no record. An inline envelope is signed by
  \<open>CryptoHandler_sign_message\<close> over the neural signature pattern followed by the
  canonical JSON, while \<open>verify_message_signature\<close> verifies over the canonical JSON
  alone; an off-chain commitment carries no signature at all.
\<close>

theorem sent_envelope_never_delivered:
  assumes "fst (send_message rt L A recipient payload encrypt priority) = Some call"
  shows "(\<forall>pk. \<not> fst (verify_message_signature (c_metadata call) pk))
       \<and> yielded (fst (receive_messages rt' L' B ([c_metadata call], fin))) = []"
proof -
  from send_message_call [OF assms] obtain mid md mb where
    se: "sign_envelope rt L A recipient payload encrypt priority = Inr (mid, md, mb)"
    and meta: "if py_len (width rt) (json_dumps False (JObj md)) > 1024
               then c_metadata call =
                        [(''id'', JStr mid), (''from'', opt_str (address A)), (''to'', JStr recipient),
                         (''ipfs_hash'', JStr (snd (store_off_chain md))),
                         (''message_hash'', JStr (hash_message mb)),
                         (''timestamp'', dict_get md ''timestamp'' JNull),
                         (''neural_signature'', JStr (u_neural_signature A))]
               else c_metadata call = md"
    by (auto split: if_splits)
  have rej: "\<not> fst (verify_message_signature (c_metadata call) pk)" for pk
  proof (cases "py_len (width rt) (json_dumps False (JObj md)) > 1024")
    case True
    with meta show ?thesis by (simp add: commitment_rejected)
  next
    case False
    with meta signed_envelope_rejected [OF se] show ?thesis by simp
  qed
  have "yielded (fst (receive_messages rt' L' B ([c_metadata call], fin))) = []"
    using body_never_yields [of rt' L' B "c_metadata call"]
    by (cases "receive_messages_body rt' L' B (c_metadata call)")
       (auto simp: receive_messages_def yielded_def split: event.splits)
  with rej show ?thesis by blast
qed

lemma sign_handler_of [simp]:
  "CryptoHandler_sign_message (handler_of r e) m
     = Inr (b64encode [EcdsaDer e (NEURAL_SIGNATURE_PATTERN @ m)])"
  by (simp add: CryptoHandler_sign_message_def handler_of_def generate_ecdsa_keypair_def
      not_bytes_def sign_message_def load_pem_private_key_def ecdsa_sign_def)

lemma hex8_0 [simp]: "HEX8 0 = ''00000000''"
  by (simp add: HEX8_def)

lemma show_nat_7 [simp]: "show_nat 7 = ''7''"
  by (simp add: show_nat.simps)

lemma registered_identity [simp]: "identity (registered nm r e) \<noteq> None"
  by (simp add: registered_def)

lemma invalid_signature_from_listed_sender:
  assumes "item raw ''from'' = Inr (JStr (address_of 2))"
    and "\<not> fst (verify_message_signature raw (JStr [PemEcPublic 2]))"
  shows "receive_messages_body rt example_ledger a raw = Inr (LogWarning ''Invalid signature'')"
proof -
  have g: "get_agent_info example_ledger (JStr (address_of 2))
             = Inr (Some [(''address'', JStr (address_of 2)), (''public_key'', JStr [PemEcPublic 2]),
                          (''is_active'', JBool True)])"
    by (simp add: example_ledger_def)
  have n: "[(''address'', JStr (address_of 2)), (''public_key'', JStr [PemEcPublic 2]),
            (''is_active'', JBool True)] \<noteq> []" by simp
  have p: "item [(''address'', JStr (address_of 2)), (''public_key'', JStr [PemEcPublic 2]),
            (''is_active'', JBool True)] ''public_key'' = Inr (JStr [PemEcPublic 2])"
    by (simp add: item_def)
  show ?thesis by (rule invalid_signature_skipped [OF assms(1) g n p assms(2)])
qed

lemma sign_encrypted_example:
  "\<exists>md mb. sign_envelope example_runtime example_ledger (registered ''A'' 1 2) (address_of 4)
             example_payload True (S ''normal'') = Inr (S ''msg_7'', md, mb)"
  by (simp add: sign_envelope_def registered_def SecureAgent_init_def example_ledger_def
      example_runtime_def address_of_def dict_get_def truthy_def Let_def item_def
      encrypt_generated S_def)

lemma send_encrypted_example:
  "\<exists>call. send_message example_runtime example_ledger (registered ''A'' 1 2) (address_of 4)
             example_payload True (S ''normal'') = (Some call, [], Inr (S ''msg_7''))"
proof -
  from sign_encrypted_example obtain md mb where
    "sign_envelope example_runtime example_ledger (registered ''A'' 1 2) (address_of 4)
             example_payload True (S ''normal'') = Inr (S ''msg_7'', md, mb)" by blast
  then show ?thesis
    by (simp add: send_message_def Let_def split_beta example_ledger_def store_off_chain_def)
qed

theorem sent_envelope_never_delivered_witness:
  "\<exists>call. send_message example_runtime example_ledger (registered ''A'' 1 2) (address_of 4)
             example_payload True (S ''normal'') = (Some call, [], Inr (S ''msg_7''))
         \<and> yielded (fst (receive_messages example_runtime example_ledger (registered ''B'' 3 4)
                       ([c_metadata call], None))) = []
         \<and> receive_messages example_runtime example_ledger (registered ''B'' 3 4)
              ([c_metadata call], None) = ([LogWarning ''Invalid signature''], None)"
proof -
  from send_encrypted_example obtain call where
    s: "send_message example_runtime example_ledger (registered ''A'' 1 2) (address_of 4)
             example_payload True (S ''normal'') = (Some call, [], Inr (S ''msg_7''))" by blast
  then have c: "fst (send_message example_runtime example_ledger (registered ''A'' 1 2) (address_of 4)
             example_payload True (S ''normal'')) = Some call" by simp
  from sent_envelope_never_delivered [OF c, of example_runtime example_ledger "registered ''B'' 3 4" None]
  have rej: "\<not> fst (verify_message_signature (c_metadata call) (JStr [PemEcPublic 2]))"
    and ny: "yielded (fst (receive_messages example_runtime example_ledger (registered ''B'' 3 4)
                       ([c_metadata call], None))) = []"
    by blast+
  from sent_from [OF c] have f: "item (c_metadata call) ''from'' = Inr (JStr (address_of 2))"
    by (simp add: registered_def opt_str_def)
  have "receive_messages_body example_runtime example_ledger (registered ''B'' 3 4) (c_metadata call)
          = Inr (LogWarning ''Invalid signature'')"
    by (rule invalid_signature_from_listed_sender [OF f rej])
  then have "receive_messages example_runtime example_ledger (registered ''B'' 3 4)
              ([c_metadata call], None) = ([LogWarning ''Invalid signature''], None)"
    by (simp add: receive_messages_def)
  with s ny show ?thesis by blast
qed

section \<open>The size-dispatch policy\<close>


lemma py_len_S [simp]: "py_len w (S cs) = length cs"
  by (induction cs) (simp_all add: S_def py_len_def)




lemma sign_padded:
  "sign_envelope example_runtime example_ledger (registered ''A'' 1 2) (address_of 4)
     (pad_payload k) False (S ''normal'')
   = Inr (S ''msg_7'', padded_envelope k, json_dumps True (JObj (butlast (padded_envelope k))))"
  by (simp add: sign_envelope_def registered_def SecureAgent_init_def example_ledger_def
      example_runtime_def address_of_def dict_get_def truthy_def Let_def dict_set_def opt_str_def
      padded_envelope_def S_def)




section \<open>The receive loop\<close>

text \<open>
  \<^bold>\<open>C7\<close> (receive-loop resilience). Let the processing of one raw envelope fail, by an
  exception \<open>e\<close> (a missing field, a failure of the collaborator's lookup, a decryption or
  integrity failure) or with the warning \<open>w\<close> (unknown sender, signature mismatch). Then
  the loop makes one log entry for it and goes on: the envelopes before it and after it
  are processed as they would be without it, and the only exception that can leave
  \<open>receive_messages\<close> is the one with which the collaborator's stream itself ends.
\<close>

theorem receive_loop_resilient:
  assumes "identity a \<noteq> None"
    and "receive_messages_body rt L a raw = Inl e
         \<or> receive_messages_body rt L a raw = Inr (LogWarning w)"
  shows "\<exists>entry. (entry = LogError e \<or> entry = LogWarning w)
           \<and> receive_messages rt L a (pre @ raw # post, fin)
               = (receive_loop rt L a pre @ entry # receive_loop rt L a post, fin)"
  using assms by (auto simp: receive_messages_def receive_loop_append)

lemma decryption_failure_raises:
  assumes "item raw ''from'' = Inr frm" and "get_agent_info L frm = Inr (Some info)" and "info \<noteq> []"
    and "item info ''public_key'' = Inr pk"
    and "verify_message_signature raw pk = (True, raw')"
    and "item raw' ''encrypted_payload'' = Inr (JObj encrypted_data)"
    and "get_private_key (crypto_handler a) = Inr sk"
    and "decrypt_message encrypted_data sk = Inl e"
  shows "receive_messages_body rt L a raw = Inl e"
proof -
  from assms(6) have "''encrypted_payload'' \<in> fst ` set raw'"
    by (auto simp: item_def split: option.splits dest: map_of_SomeD intro: rev_image_eqI)
  with assms show ?thesis by (simp add: receive_messages_body_def)
qed

lemma pop_foreign_signed:
  "''signature'' \<notin> fst ` set body \<Longrightarrow>
   verify_message_signature (foreign_signed body) (JStr [PemEcPublic 2]) = (True, body)"
  by (simp add: verify_message_signature_def foreign_signed_def pop_appended verify_signature_def
      load_pem_public_key_def b64decode_def b64encode_def ecdsa_verify_def)

lemma foreign_eval:
  "receive_messages_body example_runtime example_ledger (registered ''B'' 3 4) (foreign_signed foreign_body)
     = Inr (LogWarning ''Message without AICUBE neural signature'')"
proof -
  have v: "verify_message_signature (foreign_signed foreign_body) (JStr [PemEcPublic 2]) = (True, foreign_body)"
    by (rule pop_foreign_signed) (simp add: foreign_body_def)
  have f: "item (foreign_signed foreign_body) ''from'' = Inr (JStr (address_of 2))"
    by (simp add: foreign_signed_def foreign_body_def item_def)
  show ?thesis
    apply (simp add: receive_messages_body_def f example_ledger_def)
    apply (simp add: item_def v)
    apply (simp add: foreign_body_def dict_get_def startswith_def S_def)
    done
qed

lemma tampered_eval:
  "receive_messages_body example_runtime example_ledger (registered ''B'' 3 4) (foreign_signed tampered_body)
     = Inl IntegrityError"
proof -
  have v: "verify_message_signature (foreign_signed tampered_body) (JStr [PemEcPublic 2]) = (True, tampered_body)"
    by (rule pop_foreign_signed) (simp add: tampered_body_def)
  have f: "item (foreign_signed tampered_body) ''from'' = Inr (JStr (address_of 2))"
    by (simp add: foreign_signed_def tampered_body_def item_def)
  have d: "decrypt_message (dict_set (sealed example_entropy (json_dumps False example_payload) 3)
                 ''ciphertext'' (JStr (b64encode (S ''garbage'')))) (QUANTUM_SHIELD_HEADER @ [PemRsaPrivate 3])
           = Inl IntegrityError"
    by (rule tamper_ciphertext [where x = "[GcmCiphertext (fst (token_bytes 32 example_entropy))
              (fst (token_bytes 12 (snd (token_bytes 32 example_entropy))))
              (NEURAL_SIGNATURE_PATTERN @ json_dumps False example_payload)]"])
       (simp_all add: sealed_def Let_def item_def b64decode_def b64encode_def S_def)
  show ?thesis
    apply (simp add: receive_messages_body_def f example_ledger_def)
    apply (simp add: item_def v)
    apply (simp add: tampered_body_def registered_def SecureAgent_init_def handler_of_def
          get_private_key_def not_bytes_def generate_rsa_keypair_def d)
    done
qed

lemma stranger_eval:
  "receive_messages_body example_runtime example_ledger (registered ''B'' 3 4) stranger_envelope
     = Inr (LogWarning ''Unknown sender'')"
  by (simp add: receive_messages_body_def stranger_envelope_def item_def example_ledger_def
      address_of_def S_def)

lemma padded_eval:
  "receive_messages_body example_runtime example_ledger (registered ''B'' 3 4) (padded_envelope k)
     = Inr (LogWarning ''Invalid signature'')"
proof -
  have f: "item (padded_envelope k) ''from'' = Inr (JStr (address_of 2))"
    by (simp add: padded_envelope_def Let_def item_def)
  have rej: "\<not> fst (verify_message_signature (padded_envelope k) (JStr [PemEcPublic 2]))"
    by (rule signed_envelope_rejected [OF sign_padded])
  show ?thesis
    by (rule invalid_signature_from_listed_sender [OF f rej])
qed

theorem receive_loop_resilient_witness:
  "identity (registered ''B'' 3 4) \<noteq> None
   \<and> receive_messages_body example_runtime example_ledger (registered ''B'' 3 4)
        (foreign_signed tampered_body) = Inl IntegrityError
   \<and> receive_messages example_runtime example_ledger (registered ''B'' 3 4)
        ([stranger_envelope] @ foreign_signed tampered_body # [padded_envelope 0],
         Some (LedgerError ''connection lost''))
      = ([LogWarning ''Unknown sender'', LogError IntegrityError, LogWarning ''Invalid signature''],
         Some (LedgerError ''connection lost''))"
proof -
  have b: "receive_messages_body example_runtime example_ledger (registered ''B'' 3 4)
        (foreign_signed tampered_body) = Inl IntegrityError
      \<or> receive_messages_body example_runtime example_ledger (registered ''B'' 3 4)
        (foreign_signed tampered_body) = Inr (LogWarning ''Unknown sender'')"
    by (simp add: tampered_eval)
  from receive_loop_resilient [OF registered_identity b,
      of "[stranger_envelope]" "[padded_envelope 0]" "Some (LedgerError ''connection lost'')"]
  show ?thesis
    by (simp add: receive_messages_def tampered_eval stranger_eval padded_eval)
qed

lemma map_of_filter_other:
  "k \<noteq> k0 \<Longrightarrow> map_of (filter (\<lambda>kv. fst kv \<noteq> k0) d) k = map_of d k"
  by (induction d) auto

lemma verified_fields:
  assumes "verify_message_signature raw pk = (v, raw')" and "k \<noteq> ''signature''"
  shows "map_of raw' k = map_of raw k"
  using assms
  by (auto simp: verify_message_signature_def dict_pop_def Let_def map_of_filter_other
      split: option.splits json.splits)

text \<open>
  \<^bold>\<open>C8\<close> (foreign envelopes), as amended. Take an envelope that passes sender resolution
  and signature verification, whose payload is obtained (read from the envelope, or
  decrypted with the agent's private key and parsed), and that does not carry a
  \<^verbatim>\<open>neural_signature\<close> text starting with \<^verbatim>\<open>AICUBE_AGENT_\<close>. No record is yielded for it. If its
  \<^verbatim>\<open>neural_signature\<close> is absent or is a text, the loop body logs the warning "Message
  without AICUBE neural signature"; if it is present and not a text (\<^verbatim>\<open>null\<close>, a number, a
  list, an object), the tag check raises \<^verbatim>\<open>AttributeError\<close>, which the loop logs. In both
  cases the loop goes on to the next envelope.
\<close>

theorem untagged_envelope_dropped:
  assumes "item raw ''from'' = Inr frm" and "get_agent_info L frm = Inr (Some info)" and "info \<noteq> []"
    and "item info ''public_key'' = Inr pk"
    and "fst (verify_message_signature raw pk)"
    and "(''encrypted_payload'' \<notin> fst ` set raw \<and> item raw ''payload'' = Inr payload)
         \<or> (\<exists>encrypted_data sk decrypted.
               item raw ''encrypted_payload'' = Inr (JObj encrypted_data)
             \<and> get_private_key (crypto_handler a) = Inr sk
             \<and> decrypt_message encrypted_data sk = Inr decrypted
             \<and> json_loads rt decrypted = Inr payload)"
    and "\<not> (\<exists>s. map_of raw ''neural_signature'' = Some (JStr s) \<and> startswith s (S ''AICUBE_AGENT_''))"
  shows "receive_messages_body rt L a raw =
           (case map_of raw ''neural_signature'' of
              None \<Rightarrow> Inr (LogWarning ''Message without AICUBE neural signature'')
            | Some (JStr s) \<Rightarrow> Inr (LogWarning ''Message without AICUBE neural signature'')
            | Some _ \<Rightarrow> Inl AttributeError)"
proof -
  obtain raw' where vr: "verify_message_signature raw pk = (True, raw')"
    using assms(5) by (cases "verify_message_signature raw pk") simp
  have m: "map_of raw' k = map_of raw k" if "k \<noteq> ''signature''" for k
    using verified_fields [OF vr that] .
  have ep: "''encrypted_payload'' \<in> fst ` set raw' \<longleftrightarrow> ''encrypted_payload'' \<in> fst ` set raw"
    using m [of "''encrypted_payload''"] map_of_eq_None_iff [of raw' "''encrypted_payload''"]
      map_of_eq_None_iff [of raw "''encrypted_payload''"]
    by simp
  have ie: "item raw' ''encrypted_payload'' = item raw ''encrypted_payload''"
    by (simp add: item_def m)
  have ip: "item raw' ''payload'' = item raw ''payload''"
    by (simp add: item_def m)
  have dg: "dict_get raw' ''neural_signature'' (JStr []) = dict_get raw ''neural_signature'' (JStr [])"
    by (simp add: dict_get_def m)
  have e: "startswith [] (S ''AICUBE_AGENT_'') = False"
    by (simp add: startswith_def S_def)
  have tag: "(case dict_get raw ''neural_signature'' (JStr []) of
                JStr s \<Rightarrow> Inr (startswith s (S ''AICUBE_AGENT_''))
              | _ \<Rightarrow> Inl AttributeError)
             = (case map_of raw ''neural_signature'' of
                  None \<Rightarrow> Inr False
                | Some (JStr s) \<Rightarrow> Inr False
                | Some _ \<Rightarrow> Inl AttributeError)"
    using assms(7) by (simp add: dict_get_def e split: option.splits json.splits)
  have body: "receive_messages_body rt L a raw =
      bindE (if ''encrypted_payload'' \<in> fst ` set raw then
               bindE (item raw ''encrypted_payload'') (\<lambda>encrypted_payload.
               bindE (get_private_key (crypto_handler a)) (\<lambda>private_key_pem.
               bindE (case encrypted_payload of
                        JObj encrypted_data \<Rightarrow> decrypt_message encrypted_data private_key_pem
                      | _ \<Rightarrow> bindE (load_pem_private_key (strip_quantum_shield private_key_pem))
                               (\<lambda>_. Inl TypeError)) (\<lambda>decrypted_payload.
               json_loads rt decrypted_payload)))
             else item raw ''payload'') (\<lambda>payload.
      case map_of raw ''neural_signature'' of
        None \<Rightarrow> Inr (LogWarning ''Message without AICUBE neural signature'')
      | Some (JStr s) \<Rightarrow> Inr (LogWarning ''Message without AICUBE neural signature'')
      | Some _ \<Rightarrow> Inl AttributeError)"
    using assms(1-4) vr
    by (simp add: receive_messages_body_def ep ie ip dg tag split: option.splits json.splits)
  from assms(6) show ?thesis
  proof
    assume "''encrypted_payload'' \<notin> fst ` set raw \<and> item raw ''payload'' = Inr payload"
    then show ?thesis unfolding body by simp
  next
    assume "\<exists>encrypted_data sk decrypted.
               item raw ''encrypted_payload'' = Inr (JObj encrypted_data)
             \<and> get_private_key (crypto_handler a) = Inr sk
             \<and> decrypt_message encrypted_data sk = Inr decrypted
             \<and> json_loads rt decrypted = Inr payload"
    then obtain encrypted_data sk decrypted where
      i: "item raw ''encrypted_payload'' = Inr (JObj encrypted_data)"
      and k: "get_private_key (crypto_handler a) = Inr sk"
      and d: "decrypt_message encrypted_data sk = Inr decrypted"
      and j: "json_loads rt decrypted = Inr payload"
      by blast
    from i have "''encrypted_payload'' \<in> fst ` set raw"
      by (auto simp: item_def split: option.splits dest: map_of_SomeD intro: rev_image_eqI)
    with i k d j show ?thesis unfolding body by simp
  qed
qed

theorem untagged_envelope_dropped_witness:
  "fst (verify_message_signature (foreign_signed foreign_body) (JStr [PemEcPublic 2]))
   \<and> map_of (foreign_signed foreign_body) ''neural_signature'' = Some (JStr (S ''OTHER_PROTOCOL_1''))
   \<and> receive_messages_body example_runtime example_ledger (registered ''B'' 3 4) (foreign_signed foreign_body)
       = Inr (LogWarning ''Message without AICUBE neural signature'')
   \<and> fst (verify_message_signature (foreign_signed null_tag_body) (JStr [PemEcPublic 2]))
   \<and> map_of (foreign_signed null_tag_body) ''neural_signature'' = Some JNull
   \<and> receive_messages_body example_runtime example_ledger (registered ''B'' 3 4) (foreign_signed null_tag_body)
       = Inl AttributeError"
proof -
  have g: "get_agent_info example_ledger (JStr (address_of 2))
             = Inr (Some [(''address'', JStr (address_of 2)), (''public_key'', JStr [PemEcPublic 2]),
                          (''is_active'', JBool True)])"
    by (simp add: example_ledger_def)
  have n: "[(''address'', JStr (address_of 2)), (''public_key'', JStr [PemEcPublic 2]),
            (''is_active'', JBool True)] \<noteq> []" by simp
  have p: "item [(''address'', JStr (address_of 2)), (''public_key'', JStr [PemEcPublic 2]),
            (''is_active'', JBool True)] ''public_key'' = Inr (JStr [PemEcPublic 2])"
    by (simp add: item_def)
  have f1: "item (foreign_signed foreign_body) ''from'' = Inr (JStr (address_of 2))"
    by (simp add: foreign_signed_def foreign_body_def item_def)
  have v1: "fst (verify_message_signature (foreign_signed foreign_body) (JStr [PemEcPublic 2]))"
    by (simp add: pop_foreign_signed foreign_body_def)
  have t1: "map_of (foreign_signed foreign_body) ''neural_signature'' = Some (JStr (S ''OTHER_PROTOCOL_1''))"
    by (simp add: foreign_signed_def foreign_body_def)
  have y1: "(''encrypted_payload'' \<notin> fst ` set (foreign_signed foreign_body)
             \<and> item (foreign_signed foreign_body) ''payload'' = Inr example_payload)
         \<or> (\<exists>encrypted_data sk decrypted.
               item (foreign_signed foreign_body) ''encrypted_payload'' = Inr (JObj encrypted_data)
             \<and> get_private_key (crypto_handler (registered ''B'' 3 4)) = Inr sk
             \<and> decrypt_message encrypted_data sk = Inr decrypted
             \<and> json_loads example_runtime decrypted = Inr example_payload)"
    by (simp add: foreign_signed_def foreign_body_def item_def)
  have s1: "\<not> (\<exists>s. map_of (foreign_signed foreign_body) ''neural_signature'' = Some (JStr s)
                  \<and> startswith s (S ''AICUBE_AGENT_''))"
    by (simp add: t1) (simp add: startswith_def S_def)
  have f2: "item (foreign_signed null_tag_body) ''from'' = Inr (JStr (address_of 2))"
    by (simp add: foreign_signed_def null_tag_body_def item_def)
  have v2: "fst (verify_message_signature (foreign_signed null_tag_body) (JStr [PemEcPublic 2]))"
    by (simp add: pop_foreign_signed null_tag_body_def)
  have t2: "map_of (foreign_signed null_tag_body) ''neural_signature'' = Some JNull"
    by (simp add: foreign_signed_def null_tag_body_def)
  have y2: "(''encrypted_payload'' \<notin> fst ` set (foreign_signed null_tag_body)
             \<and> item (foreign_signed null_tag_body) ''payload'' = Inr example_payload)
         \<or> (\<exists>encrypted_data sk decrypted.
               item (foreign_signed null_tag_body) ''encrypted_payload'' = Inr (JObj encrypted_data)
             \<and> get_private_key (crypto_handler (registered ''B'' 3 4)) = Inr sk
             \<and> decrypt_message encrypted_data sk = Inr decrypted
             \<and> json_loads example_runtime decrypted = Inr example_payload)"
    by (simp add: foreign_signed_def null_tag_body_def item_def)
  have s2: "\<not> (\<exists>s. map_of (foreign_signed null_tag_body) ''neural_signature'' = Some (JStr s)
                  \<and> startswith s (S ''AICUBE_AGENT_''))"
    by (simp add: t2)
  from untagged_envelope_dropped [OF f1 g n p v1 y1 s1]
  have r1: "receive_messages_body example_runtime example_ledger (registered ''B'' 3 4)
              (foreign_signed foreign_body)
            = Inr (LogWarning ''Message without AICUBE neural signature'')"
    by (simp add: t1)
  from untagged_envelope_dropped [OF f2 g n p v2 y2 s2]
  have r2: "receive_messages_body example_runtime example_ledger (registered ''B'' 3 4)
              (foreign_signed null_tag_body) = Inl AttributeError"
    by (simp add: t2)
  from v1 t1 r1 v2 t2 r2 show ?thesis by blast
qed

text \<open>The foreign-envelope claim as stated fails: this envelope of a listed sender carries
  a valid signature and another protocol's tag, and the loop yields no record for it.\<close>

theorem foreign_envelope_counterexample:
  "fst (verify_message_signature (foreign_signed foreign_body) (JStr [PemEcPublic 2]))
   \<and> receive_messages example_runtime example_ledger (registered ''B'' 3 4)
        ([foreign_signed foreign_body], None)
      = ([LogWarning ''Message without AICUBE neural signature''], None)
   \<and> yielded (fst (receive_messages example_runtime example_ledger (registered ''B'' 3 4)
        ([foreign_signed foreign_body], None))) = []"
proof -
  have v: "verify_message_signature (foreign_signed foreign_body) (JStr [PemEcPublic 2]) = (True, foreign_body)"
    by (rule pop_foreign_signed) (simp add: foreign_body_def)
  show ?thesis
    by (simp add: v receive_messages_def foreign_eval yielded_def)
qed

end
